theory Spec2Isabelle
  imports Main
begin

section \<open>JavaScript values and strings\<close>

text \<open>
  A JavaScript string is modelled by the list of its code units, taken from the 8-bit
  range (\<^typ>\<open>string\<close>). A property that may be absent, \<open>null\<close> or present is a
  \<open>nullable\<close>: \<open>Undefined\<close> is an absent key (or the value \<open>undefined\<close>),
  \<open>Null\<close> is \<open>null\<close>.
\<close>

datatype 'a nullable = Undefined | Null | Val 'a

text \<open>Truthiness of a boolean-or-null and of a string-or-null, as \<open>if (x)\<close> reads them.\<close>

fun truthy :: "bool nullable \<Rightarrow> bool" where
  "truthy (Val b) = b"
| "truthy _ = False"

fun truthy_str :: "string nullable \<Rightarrow> bool" where
  "truthy_str (Val s) = (s \<noteq> [])"
| "truthy_str _ = False"

text \<open>\<open>a || b\<close> on boolean-or-null operands.\<close>

definition js_or :: "bool nullable \<Rightarrow> bool nullable \<Rightarrow> bool nullable" where
  "js_or a b = (if truthy a then a else b)"

text \<open>
  White space as the regular expression class \<open>\s\<close>, \<open>trim()\<close> and \<open>parseInt\<close>
  see it (tab, line feed, vertical tab, form feed, carriage return, space, no-break space),
  and the line terminators that \<open>.\<close> does not match.
\<close>

definition is_space :: "char \<Rightarrow> bool" where
  "is_space c =
     (c \<in> set [CHR 0x09, CHR 0x0A, CHR 0x0B, CHR 0x0C, CHR 0x0D, CHR 0x20, CHR 0xA0])"

definition is_line_terminator :: "char \<Rightarrow> bool" where
  "is_line_terminator c = (c \<in> set [CHR 0x0A, CHR 0x0D])"

definition is_digit :: "char \<Rightarrow> bool" where
  "is_digit c = (c \<in> set ''0123456789'')"

definition trim :: "string \<Rightarrow> string" where
  "trim s = rev (dropWhile is_space (rev (dropWhile is_space s)))"

text \<open>
  Letters. \<open>translate from to c\<close> is the character of \<open>to\<close> at the place where
  \<open>c\<close> stands in \<open>from\<close>, and \<open>c\<close> itself when it does not occur there.
\<close>

definition lower_letters :: string where
  "lower_letters = ''abcdefghijklmnopqrstuvwxyz''"

definition upper_letters :: string where
  "upper_letters = ''ABCDEFGHIJKLMNOPQRSTUVWXYZ''"

definition upper_latin1 :: string where
  "upper_latin1 =
     [CHR 0xC0, CHR 0xC1, CHR 0xC2, CHR 0xC3, CHR 0xC4, CHR 0xC5, CHR 0xC6, CHR 0xC7,
      CHR 0xC8, CHR 0xC9, CHR 0xCA, CHR 0xCB, CHR 0xCC, CHR 0xCD, CHR 0xCE, CHR 0xCF,
      CHR 0xD0, CHR 0xD1, CHR 0xD2, CHR 0xD3, CHR 0xD4, CHR 0xD5, CHR 0xD6, CHR 0xD8,
      CHR 0xD9, CHR 0xDA, CHR 0xDB, CHR 0xDC, CHR 0xDD, CHR 0xDE]"

definition lower_latin1 :: string where
  "lower_latin1 =
     [CHR 0xE0, CHR 0xE1, CHR 0xE2, CHR 0xE3, CHR 0xE4, CHR 0xE5, CHR 0xE6, CHR 0xE7,
      CHR 0xE8, CHR 0xE9, CHR 0xEA, CHR 0xEB, CHR 0xEC, CHR 0xED, CHR 0xEE, CHR 0xEF,
      CHR 0xF0, CHR 0xF1, CHR 0xF2, CHR 0xF3, CHR 0xF4, CHR 0xF5, CHR 0xF6, CHR 0xF8,
      CHR 0xF9, CHR 0xFA, CHR 0xFB, CHR 0xFC, CHR 0xFD, CHR 0xFE]"

fun translate :: "string \<Rightarrow> string \<Rightarrow> char \<Rightarrow> char" where
  "translate (a # as) (b # bs) c = (if c = a then b else translate as bs c)"
| "translate _ _ c = c"

text \<open>\<open>toLowerCase()\<close>, on the letters of ASCII and of the range 192 to 222.\<close>

definition lower_char :: "char \<Rightarrow> char" where
  "lower_char c = translate (upper_letters @ upper_latin1) (lower_letters @ lower_latin1) c"

definition toLowerCase :: "string \<Rightarrow> string" where
  "toLowerCase s = map lower_char s"

text \<open>
  The patterns of this program contain ASCII characters only. Under the \<open>i\<close> flag a
  pattern letter matches itself in either case, and any other pattern character matches
  itself only (an input character outside ASCII is never folded into ASCII).
\<close>

definition case_variants :: "char \<Rightarrow> char list" where
  "case_variants p =
     (if p \<in> set upper_letters then [p, translate upper_letters lower_letters p]
      else if p \<in> set lower_letters then [p, translate lower_letters upper_letters p]
      else [p])"

section \<open>Numbers\<close>

text \<open>
  The numbers of this program are the two move counters of the position. They are
  modelled as integers, with \<open>NaN\<close> for what \<open>parseInt\<close> returns on a text without digits.
\<close>

datatype jsnum = NaN | Num int

fun show_nat :: "nat \<Rightarrow> string" where
  "show_nat n =
     (if n < 10 then [''0123456789'' ! n]
      else show_nat (n div 10) @ [''0123456789'' ! (n mod 10)])"

declare show_nat.simps [simp del]

definition show_int :: "int \<Rightarrow> string" where
  "show_int i = (if i < 0 then CHR ''-'' # show_nat (nat (- i)) else show_nat (nat i))"

fun show_num :: "jsnum \<Rightarrow> string" where
  "show_num NaN = ''NaN''"
| "show_num (Num i) = show_int i"

text \<open>The value of a digit: its place in \<open>0123456789\<close>.\<close>

fun place_in :: "string \<Rightarrow> char \<Rightarrow> nat" where
  "place_in [] c = 0"
| "place_in (d # ds) c = (if c = d then 0 else Suc (place_in ds c))"

definition digit_val :: "char \<Rightarrow> nat" where
  "digit_val c = place_in ''0123456789'' c"

definition digits_val :: "string \<Rightarrow> nat" where
  "digits_val ds = foldl (\<lambda>a c. 10 * a + digit_val c) 0 ds"

text \<open>\<open>parseInt(s, 10)\<close>: leading white space, an optional sign, the longest run of digits.\<close>

definition parse_digits :: "string \<Rightarrow> nat option" where
  "parse_digits s = (let ds = takeWhile is_digit s in if ds = [] then None else Some (digits_val ds))"

definition parseInt :: "string \<Rightarrow> jsnum" where
  "parseInt s =
     (case dropWhile is_space s of
        [] \<Rightarrow> NaN
      | c # cs \<Rightarrow>
          if c = CHR ''-'' then (case parse_digits cs of None \<Rightarrow> NaN | Some n \<Rightarrow> Num (- int n))
          else if c = CHR ''+'' then (case parse_digits cs of None \<Rightarrow> NaN | Some n \<Rightarrow> Num (int n))
          else (case parse_digits (c # cs) of None \<Rightarrow> NaN | Some n \<Rightarrow> Num (int n)))"

text \<open>\<open>x++\<close> on a counter.\<close>

fun js_incr :: "jsnum \<Rightarrow> jsnum" where
  "js_incr NaN = NaN"
| "js_incr (Num i) = Num (i + 1)"

section \<open>The regular expressions of the reply parsers\<close>

text \<open>
  Every pattern of the parsers is a label, \<open>\s*\<close>, and one capture group.
  \<open>String.prototype.match\<close> returns the leftmost match; at each start position the
  label is compared case-insensitively, \<open>\s*\<close> is greedy and gives characters back when
  the rest of the pattern fails, and the group is one of four shapes.
\<close>

fun ci_prefix :: "char list list \<Rightarrow> string \<Rightarrow> string option" where
  "ci_prefix [] s = Some s"
| "ci_prefix (p # ps) [] = None"
| "ci_prefix (p # ps) (c # cs) = (if c \<in> set p then ci_prefix ps cs else None)"

fun greedy_ws :: "(string \<Rightarrow> 'a option) \<Rightarrow> string \<Rightarrow> 'a option" where
  "greedy_ws v [] = v []"
| "greedy_ws v (c # cs) =
     (if is_space c
      then (case greedy_ws v cs of Some x \<Rightarrow> Some x | None \<Rightarrow> v (c # cs))
      else v (c # cs))"

fun search :: "(string \<Rightarrow> 'a option) \<Rightarrow> string \<Rightarrow> 'a option" where
  "search f [] = f []"
| "search f (c # cs) = (case f (c # cs) of Some x \<Rightarrow> Some x | None \<Rightarrow> search f cs)"

definition match_field :: "string \<Rightarrow> (string \<Rightarrow> string option) \<Rightarrow> string \<Rightarrow> string option" where
  "match_field label grp s =
     search (\<lambda>t. case ci_prefix (map case_variants label) t of
                  None \<Rightarrow> None
                | Some r \<Rightarrow> greedy_ws grp r) s"

text \<open>\<open>(true|false)\<close>\<close>

definition grp_bool :: "string \<Rightarrow> string option" where
  "grp_bool r =
     (if ci_prefix (map case_variants ''true'') r \<noteq> None then Some (take 4 r)
      else if ci_prefix (map case_variants ''false'') r \<noteq> None then Some (take 5 r)
      else None)"

text \<open>\<open>([a-h][1-8][a-h][1-8][qrbnQRBN]?)\<close>\<close>

definition is_file :: "char \<Rightarrow> bool" where
  "is_file c = (c \<in> set ''abcdefghABCDEFGH'')"

definition is_rank :: "char \<Rightarrow> bool" where
  "is_rank c = (c \<in> set ''12345678'')"

definition is_promo :: "char \<Rightarrow> bool" where
  "is_promo c = (c \<in> set ''qrbnQRBN'')"

fun grp_move :: "string \<Rightarrow> string option" where
  "grp_move (a # b # c # d # rest) =
     (if is_file a \<and> is_rank b \<and> is_file c \<and> is_rank d
      then (case rest of
              e # _ \<Rightarrow> if is_promo e then Some [a, b, c, d, e] else Some [a, b, c, d]
            | [] \<Rightarrow> Some [a, b, c, d])
      else None)"
| "grp_move _ = None"

text \<open>\<open>([a-h][1-8]|ninguno)\<close>\<close>

definition grp_square :: "string \<Rightarrow> string option" where
  "grp_square r =
     (case r of
        a # b # _ \<Rightarrow>
          if is_file a \<and> is_rank b then Some [a, b]
          else if ci_prefix (map case_variants ''ninguno'') r \<noteq> None then Some (take 7 r)
          else None
      | _ \<Rightarrow> None)"

text \<open>
  \<open>(.+?)(?=\n|$)\<close>: at least one character that is not a line terminator, extended one
  character at a time until a line feed or the end of the input follows.
\<close>

fun lazy_line :: "string \<Rightarrow> string \<Rightarrow> string option" where
  "lazy_line acc [] = Some acc"
| "lazy_line acc (c # cs) =
     (if c = CHR 0x0A then Some acc
      else if is_line_terminator c then None
      else lazy_line (acc @ [c]) cs)"

definition grp_line :: "string \<Rightarrow> string option" where
  "grp_line r =
     (case r of
        [] \<Rightarrow> None
      | c # cs \<Rightarrow> if is_line_terminator c then None else lazy_line [c] cs)"

section \<open>Sessions, moves and the chess position\<close>

record player =
  pid :: string
  pname :: string

datatype turn = Player1 | Player2

datatype outcome = WinPlayer1 | WinPlayer2 | Draw

text \<open>The value of \<open>this.currentTurn\<close> (\<open>'player1'\<close> or \<open>'player2'\<close>) when it is stored as a winner.\<close>

fun turn_outcome :: "turn \<Rightarrow> outcome" where
  "turn_outcome Player1 = WinPlayer1"
| "turn_outcome Player2 = WinPlayer2"

record move =
  mv_player :: string
  mv_move :: "string nullable"
  mv_normalizedMove :: "string nullable"
  mv_timestamp :: nat

record castling =
  whiteKingSide :: bool
  whiteQueenSide :: bool
  blackKingSide :: bool
  blackQueenSide :: bool

record chess_state =
  board :: "char list list"
  perspective :: string
  lastMove :: "string nullable"
  check :: "string nullable"
  possibleMoves :: "string list"
  castlingRights :: castling
  enPassantTarget :: "string nullable"
  halfMoveClock :: jsnum
  fullMoveNumber :: jsnum

text \<open>
  A session is a game object after \<open>new ChessGame()\<close> and \<open>initialize\<close> (or
  \<open>loadState\<close>): both players are set and \<open>currentTurn\<close> is one of the two players.
  Times are natural numbers; \<open>new Date()\<close> is a parameter of the operation that reads it.
\<close>

record game =
  gtype :: string
  state :: chess_state
  player1 :: player
  player2 :: player
  currentTurn :: turn
  winner :: "outcome nullable"
  moveHistory :: "move list"
  startTime :: nat
  endTime :: "nat nullable"
  vsAI :: bool

datatype exn = TypeError | OracleError

subsection \<open>ChessGame.initializeGameState\<close>

definition initial_board :: "char list list" where
  "initial_board =
     [''rnbqkbnr'', ''pppppppp'', ''        '', ''        '',
      ''        '', ''        '', ''PPPPPPPP'', ''RNBQKBNR'']"

definition initializeGameState :: chess_state where
  "initializeGameState =
     \<lparr>board = initial_board, perspective = ''white'', lastMove = Null, check = Null,
      possibleMoves = [],
      castlingRights = \<lparr>whiteKingSide = True, whiteQueenSide = True,
                        blackKingSide = True, blackQueenSide = True\<rparr>,
      enPassantTarget = Null, halfMoveClock = Num 0, fullMoveNumber = Num 1\<rparr>"

subsection \<open>ChessGame.generateFEN\<close>

text \<open>
  \<open>board[row][col]\<close>: a row shorter than the column read gives \<open>undefined\<close>, which is not
  \<open>' '\<close> and is appended as the text \<open>undefined\<close>; a missing row makes the read throw.
\<close>

definition cell_text :: "char list \<Rightarrow> nat \<Rightarrow> string" where
  "cell_text r col = (if col < length r then [r ! col] else ''undefined'')"

definition fen_cell :: "char list \<Rightarrow> string \<times> nat \<Rightarrow> nat \<Rightarrow> string \<times> nat" where
  "fen_cell r acc col =
     (case acc of (fen, emptySquares) \<Rightarrow>
        if cell_text r col = '' '' then (fen, emptySquares + 1)
        else if emptySquares > 0 then (fen @ show_nat emptySquares @ cell_text r col, 0)
        else (fen @ cell_text r col, 0))"

definition fen_row :: "char list list \<Rightarrow> string \<Rightarrow> nat \<Rightarrow> string" where
  "fen_row b fen row =
     (case foldl (fen_cell (b ! row)) (fen, 0) [0..<8] of (fen1, emptySquares) \<Rightarrow>
        let fen2 = (if emptySquares > 0 then fen1 @ show_nat emptySquares else fen1)
        in if row < 7 then fen2 @ ''/'' else fen2)"

definition castling_text :: "castling \<Rightarrow> string" where
  "castling_text c =
     (if whiteKingSide c then ''K'' else []) @ (if whiteQueenSide c then ''Q'' else []) @
     (if blackKingSide c then ''k'' else []) @ (if blackQueenSide c then ''q'' else [])"

definition generateFEN :: "game \<Rightarrow> exn + string" where
  "generateFEN g =
     (let st = state g in
      if length (board st) < 8 then Inl TypeError
      else Inr (foldl (fen_row (board st)) [] [0..<8]
                @ '' '' @ (if currentTurn g = Player1 then ''w'' else ''b'')
                @ '' '' @ (if castling_text (castlingRights st) = [] then ''-''
                           else castling_text (castlingRights st))
                @ '' '' @ (case enPassantTarget st of
                             Val s \<Rightarrow> if s = [] then ''-'' else s | _ \<Rightarrow> ''-'')
                @ '' '' @ show_num (halfMoveClock st)
                @ '' '' @ show_num (fullMoveNumber st)))"

subsection \<open>ChessGame.updateBoardFromFEN\<close>

text \<open>\<open>s.split(c)\<close> for a one-character separator.\<close>

fun split_on :: "char \<Rightarrow> string \<Rightarrow> string list" where
  "split_on sep [] = [[]]"
| "split_on sep (c # cs) =
     (if c = sep then [] # split_on sep cs
      else (case split_on sep cs of f # fs \<Rightarrow> (c # f) # fs | [] \<Rightarrow> [[c]]))"

definition fen_row_cells :: "string \<Rightarrow> char list" where
  "fen_row_cells r =
     concat (map (\<lambda>ch. if is_rank ch
                        then (case parseInt [ch] of Num n \<Rightarrow> replicate (nat n) CHR '' '' | NaN \<Rightarrow> [])
                        else [ch]) r)"

text \<open>
  The destructured fields beyond the end of the split are \<open>undefined\<close>. The position is
  decoded first; when it has fewer than eight rows the read of the missing row throws and
  nothing is assigned. With the board assigned, a missing castling field throws at
  \<open>castling.includes\<close>; the \<open>catch\<close> logs either error and returns.
\<close>

definition field_text :: "string list \<Rightarrow> nat \<Rightarrow> string" where
  "field_text fs i = (if i < length fs then fs ! i else ''undefined'')"

definition updateBoardFromFEN :: "string \<Rightarrow> game \<Rightarrow> game" where
  "updateBoardFromFEN fen g =
     (let fs = split_on CHR '' '' fen;
          rows = split_on CHR ''/'' (fs ! 0)
      in if length rows < 8 then g
         else
           let st1 = (state g)\<lparr>board := map fen_row_cells (take 8 rows)\<rparr>
           in if length fs < 3 then g\<lparr>state := st1\<rparr>
              else g\<lparr>state := st1
                     \<lparr>castlingRights :=
                         \<lparr>whiteKingSide = CHR ''K'' \<in> set (fs ! 2),
                          whiteQueenSide = CHR ''Q'' \<in> set (fs ! 2),
                          blackKingSide = CHR ''k'' \<in> set (fs ! 2),
                          blackQueenSide = CHR ''q'' \<in> set (fs ! 2)\<rparr>,
                      enPassantTarget :=
                         (if length fs < 4 then Undefined
                          else if fs ! 3 \<noteq> ''-'' then Val (fs ! 3) else Null),
                      halfMoveClock := parseInt (field_text fs 4),
                      fullMoveNumber := parseInt (field_text fs 5)\<rparr>\<rparr>)"

section \<open>The reply parsers\<close>

text \<open>
  The object a parser returns. \<open>parseMoveResponse\<close> sets the first twelve keys,
  \<open>parseAIResponse\<close> sets all but \<open>reason\<close>; the objects of the \<open>catch\<close> branches and of
  the missing-move branch carry \<open>valid\<close> and \<open>reason\<close> only.
\<close>

record move_result =
  valid :: "bool nullable"
  normalizedMove :: "string nullable"
  reason :: "string nullable"
  isCheck :: "bool nullable"
  isCheckmate :: "bool nullable"
  isDraw :: "bool nullable"
  checkPosition :: "string nullable"
  gameOver :: "bool nullable"
  res_winner :: "outcome nullable"
  isCapture :: "bool nullable"
  pieceMovedText :: "string nullable"
  fenResult :: "string nullable"
  moveText :: "string nullable"
  explanation :: "string nullable"
  messageIntro :: "string nullable"

definition invalid_result :: "string \<Rightarrow> move_result" where
  "invalid_result why =
     \<lparr>valid = Val False, normalizedMove = Undefined, reason = Val why, isCheck = Undefined,
      isCheckmate = Undefined, isDraw = Undefined, checkPosition = Undefined,
      gameOver = Undefined, res_winner = Undefined, isCapture = Undefined,
      pieceMovedText = Undefined, fenResult = Undefined, moveText = Undefined,
      explanation = Undefined, messageIntro = Undefined\<rparr>"

text \<open>\<open>m && m[1].toLowerCase() === 'true'\<close>\<close>

definition bool_field :: "string \<Rightarrow> string \<Rightarrow> bool nullable" where
  "bool_field label s =
     (case match_field label grp_bool s of
        None \<Rightarrow> Null
      | Some v \<Rightarrow> Val (toLowerCase v = ''true''))"

text \<open>\<open>m ? (m[1].toLowerCase() === 'ninguno' ? null : m[1].toLowerCase()) : null\<close>\<close>

definition square_field :: "string \<Rightarrow> string \<Rightarrow> string nullable" where
  "square_field label s =
     (case match_field label grp_square s of
        None \<Rightarrow> Null
      | Some v \<Rightarrow> if toLowerCase v = ''ninguno'' then Null else Val (toLowerCase v))"

definition winner_of :: "game \<Rightarrow> bool nullable \<Rightarrow> bool nullable \<Rightarrow> outcome nullable" where
  "winner_of g isCheckmate' isDraw' =
     (if truthy isCheckmate' then Val (turn_outcome (currentTurn g))
      else if truthy isDraw' then Val Draw
      else Null)"

text \<open>
  The \<open>try\<close> block of \<open>parseMoveResponse\<close>. The reply is a string (\<open>Val s\<close>) or some
  other value, on which \<open>response.match\<close> throws.
\<close>

definition parseMoveResponse_try :: "game \<Rightarrow> string nullable \<Rightarrow> exn + move_result" where
  "parseMoveResponse_try g response =
     (case response of
        Val s \<Rightarrow>
          let isCheckmate' = bool_field ''JAQUE_MATE:'' s;
              isDraw' = bool_field ''TABLAS:'' s
          in Inr
            \<lparr>valid = bool_field ''MOVIMIENTO_VALIDO:'' s,
             normalizedMove =
               (case match_field ''MOVIMIENTO_NORMALIZADO:'' grp_move s of
                  None \<Rightarrow> Null | Some v \<Rightarrow> Val (toLowerCase v)),
             reason =
               (case match_field ''RAZON:'' grp_line s of
                  None \<Rightarrow> Val (''Movimiento inv'' @ [CHR 0xE1] @ ''lido'')
                | Some v \<Rightarrow> Val (trim v)),
             isCheck = bool_field ''JAQUE:'' s,
             isCheckmate = isCheckmate',
             isDraw = isDraw',
             checkPosition = square_field ''POSICION_JAQUE:'' s,
             gameOver = js_or isCheckmate' isDraw',
             res_winner = winner_of g isCheckmate' isDraw',
             isCapture = bool_field ''CAPTURA:'' s,
             pieceMovedText =
               (case match_field ''PIEZA_MOVIDA:'' grp_line s of
                  None \<Rightarrow> Val [] | Some v \<Rightarrow> Val (trim v)),
             fenResult =
               (case match_field ''FEN_RESULTANTE:'' grp_line s of
                  None \<Rightarrow> Null | Some v \<Rightarrow> Val (trim v)),
             moveText = Undefined, explanation = Undefined, messageIntro = Undefined\<rparr>
      | _ \<Rightarrow> Inl TypeError)"

definition parseMoveResponse :: "game \<Rightarrow> string nullable \<Rightarrow> move_result" where
  "parseMoveResponse g response =
     (case parseMoveResponse_try g response of
        Inr r \<Rightarrow> r
      | Inl _ \<Rightarrow> invalid_result ''Error al analizar la respuesta.'')"

text \<open>The \<open>try\<close> block of \<open>parseAIResponse\<close>.\<close>

definition parseAIResponse_try :: "game \<Rightarrow> string nullable \<Rightarrow> exn + move_result" where
  "parseAIResponse_try g response =
     (case response of
        Val s \<Rightarrow>
          (case match_field ''MOVIMIENTO:'' grp_move s of
             None \<Rightarrow>
               Inr (invalid_result (''La IA no gener'' @ [CHR 0xF3] @ '' un movimiento v''
                                    @ [CHR 0xE1] @ ''lido''))
           | Some m \<Rightarrow>
               let isCheck' = bool_field ''JAQUE:'' s;
                   isCheckmate' = bool_field ''JAQUE_MATE:'' s;
                   isDraw' = bool_field ''TABLAS:'' s;
                   isCapture' = bool_field ''CAPTURA:'' s
               in Inr
                 \<lparr>valid = Val True,
                  normalizedMove = Val (toLowerCase m),
                  reason = Undefined,
                  isCheck = isCheck',
                  isCheckmate = isCheckmate',
                  isDraw = isDraw',
                  checkPosition = square_field ''POSICION_JAQUE:'' s,
                  gameOver = js_or isCheckmate' isDraw',
                  res_winner = winner_of g isCheckmate' isDraw',
                  isCapture = isCapture',
                  pieceMovedText =
                    (case match_field ''PIEZA_MOVIDA:'' grp_line s of
                       None \<Rightarrow> Val [] | Some v \<Rightarrow> Val (trim v)),
                  fenResult =
                    (case match_field ''FEN_RESULTANTE:'' grp_line s of
                       None \<Rightarrow> Null | Some v \<Rightarrow> Val (trim v)),
                  moveText = Val (toLowerCase m),
                  explanation =
                    (case match_field ''EXPLICACION_BREVE:'' grp_line s of
                       None \<Rightarrow> Val (''Sin explicaci'' @ [CHR 0xF3] @ ''n'')
                     | Some v \<Rightarrow> Val (trim v)),
                  messageIntro =
                    Val (if truthy isCheckmate'
                         then [CHR 0xA1] @ ''Jaque mate! Mi movimiento final es:''
                         else if truthy isCheck' then [CHR 0xA1] @ ''Jaque! He movido:''
                         else if truthy isCapture' then ''He capturado:''
                         else ''He movido:'')\<rparr>)
      | _ \<Rightarrow> Inl TypeError)"

definition parseAIResponse :: "game \<Rightarrow> string nullable \<Rightarrow> move_result" where
  "parseAIResponse g response =
     (case parseAIResponse_try g response of
        Inr r \<Rightarrow> r
      | Inl _ \<Rightarrow> invalid_result ''Error al analizar la respuesta de la IA.'')"

section \<open>ChessGame.applyMove\<close>

definition applyMove :: "move_result \<Rightarrow> game \<Rightarrow> game" where
  "applyMove moveResult g =
     (if truthy (valid moveResult) then
        let g1 = (case fenResult moveResult of
                    Val fen \<Rightarrow> if fen \<noteq> [] then updateBoardFromFEN fen g else g
                  | _ \<Rightarrow> g);
            st1 = (state g1)\<lparr>lastMove := normalizedMove moveResult,
                             check := checkPosition moveResult\<rparr>;
            st2 = (if currentTurn g1 = Player2
                   then st1\<lparr>fullMoveNumber := js_incr (fullMoveNumber st1)\<rparr> else st1);
            g2 = g1\<lparr>state := st2\<rparr>
        in if truthy (gameOver moveResult) then g2\<lparr>winner := res_winner moveResult\<rparr> else g2
      else g)"

section \<open>Prompts and the oracle\<close>

text \<open>
  A prompt is a fixed template with values interpolated; it is modelled by the
  interpolated values, in the order of the template. The oracle client
  (\<open>iaService.sendMessageToAI\<close>) is a parameter: its answer to the \<open>n\<close>-th request of an
  operation is \<open>None\<close> when the request fails (the promise rejects), and otherwise the
  value it resolves to.
\<close>

record attempt =
  a_moveText :: "string nullable"
  a_reason :: "string nullable"

datatype prompt =
  MovePrompt string string string string string string
| AIPrompt string string string string "string list" "attempt list"

type_synonym ia_service = "nat \<Rightarrow> prompt \<Rightarrow> string nullable option"

text \<open>A value interpolated into a template literal.\<close>

fun text_of :: "string nullable \<Rightarrow> string" where
  "text_of (Val s) = s"
| "text_of Null = ''null''"
| "text_of Undefined = ''undefined''"

definition side_label :: "bool \<Rightarrow> string" where
  "side_label white = (if white then ''Blancas'' else ''Negras'')"

definition buildMovePrompt :: "game \<Rightarrow> string \<Rightarrow> string nullable \<Rightarrow> exn + prompt" where
  "buildMovePrompt g playerId moveText' =
     (case generateFEN g of
        Inl e \<Rightarrow> Inl e
      | Inr fen \<Rightarrow>
          Inr (MovePrompt fen
                 (side_label (currentTurn g = Player1))
                 (if truthy_str (lastMove (state g)) then text_of (lastMove (state g))
                  else ''Ninguno (inicio de partida)'')
                 (if playerId = pid (player1 g) then pname (player1 g) else pname (player2 g))
                 (side_label (playerId = pid (player1 g)))
                 (text_of moveText')))"

definition history_line :: "game \<Rightarrow> move \<Rightarrow> string" where
  "history_line g m =
     side_label (mv_player m = pid (player1 g)) @ '': '' @ text_of (mv_move m)"

definition buildAIPrompt :: "game \<Rightarrow> attempt list \<Rightarrow> exn + prompt" where
  "buildAIPrompt g historialIntentos =
     (case generateFEN g of
        Inl e \<Rightarrow> Inl e
      | Inr fen \<Rightarrow>
          Inr (AIPrompt
                 (side_label (pid (player2 g) = ''AI'' \<and> currentTurn g \<noteq> Player2))
                 fen
                 (side_label (currentTurn g = Player1))
                 (if moveHistory g \<noteq> [] then text_of (mv_move (last (moveHistory g)))
                  else ''Ninguno (inicio de partida)'')
                 (map (history_line g) (moveHistory g))
                 historialIntentos))"

section \<open>BaseGame\<close>

datatype msg =
  AlreadyFinished "outcome nullable"
| NotYourTurn
| InvalidMove string
| ProcessingError
| Rendered
| AIMoved string string
| AIExhausted
| AIError
| NotParticipant
| Surrendered string "outcome nullable"

record op_result =
  success :: bool
  message :: msg
  res_gameOver :: "bool nullable"

text \<open>
  \<open>new ChessGame()\<close> followed by \<open>initialize\<close>, as \<open>startGame\<close> creates a session: the
  constructor leaves \<open>endTime\<close> at \<open>null\<close> and sets the type, \<open>initialize\<close> sets the rest.
\<close>

definition initialize :: "string \<Rightarrow> string \<Rightarrow> string \<Rightarrow> string \<Rightarrow> bool \<Rightarrow> nat \<Rightarrow> game" where
  "initialize player1Id player1Name player2Id player2Name vsAI' now =
     \<lparr>gtype = ''ajedrez'', state = initializeGameState,
      player1 = \<lparr>pid = player1Id, pname = player1Name\<rparr>,
      player2 = \<lparr>pid = player2Id, pname = player2Name\<rparr>,
      currentTurn = Player1, winner = Null, moveHistory = [], startTime = now,
      endTime = Null, vsAI = vsAI'\<rparr>"

definition isFinished :: "game \<Rightarrow> bool" where
  "isFinished g = (winner g \<noteq> Null)"

definition isPlayerTurn :: "game \<Rightarrow> string \<Rightarrow> bool" where
  "isPlayerTurn g playerId =
     (if currentTurn g = Player1 \<and> playerId = pid (player1 g) then True
      else if currentTurn g = Player2 \<and> playerId = pid (player2 g) then True
      else False)"

definition isAITurn :: "game \<Rightarrow> bool" where
  "isAITurn g = (vsAI g \<and> currentTurn g = Player2)"

definition switchTurn :: "game \<Rightarrow> game" where
  "switchTurn g = g\<lparr>currentTurn := (if currentTurn g = Player1 then Player2 else Player1)\<rparr>"

text \<open>
  \<open>renderGame\<close>: the text drawn is not modelled. \<open>renderChessBoard\<close> reads
  \<open>board[row][col]\<close> for the eight rows, so it throws when a row is missing; a missing
  cell is drawn as a blank.
\<close>

definition renderGame :: "game \<Rightarrow> exn + msg" where
  "renderGame g = (if length (board (state g)) < 8 then Inl TypeError else Inr Rendered)"

subsection \<open>processMove\<close>

definition processMove :: "ia_service \<Rightarrow> nat \<Rightarrow> string \<Rightarrow> string \<Rightarrow> game \<Rightarrow> op_result \<times> game" where
  "processMove orc now playerId moveText' g =
     (if isFinished g then
        (\<lparr>success = False, message = AlreadyFinished (winner g), res_gameOver = Val True\<rparr>, g)
      else if \<not> isPlayerTurn g playerId then
        (\<lparr>success = False, message = NotYourTurn, res_gameOver = Val False\<rparr>, g)
      else
        (case buildMovePrompt g playerId (Val moveText') of
           Inl e \<Rightarrow> (\<lparr>success = False, message = ProcessingError, res_gameOver = Val False\<rparr>, g)
         | Inr prompt \<Rightarrow>
             (case orc 0 prompt of
                None \<Rightarrow>
                  (\<lparr>success = False, message = ProcessingError, res_gameOver = Val False\<rparr>, g)
              | Some response \<Rightarrow>
                  let moveResult = parseMoveResponse g response
                  in if truthy (valid moveResult) then
                       let g1 = g\<lparr>moveHistory := moveHistory g @
                                   [\<lparr>mv_player = playerId, mv_move = Val moveText',
                                     mv_normalizedMove = normalizedMove moveResult,
                                     mv_timestamp = now\<rparr>]\<rparr>;
                           g2 = applyMove moveResult g1;
                           g3 = (if \<not> truthy (gameOver moveResult) then switchTurn g2
                                 else g2\<lparr>winner := res_winner moveResult, endTime := Val now\<rparr>)
                       in (case renderGame g3 of
                             Inl e \<Rightarrow>
                               (\<lparr>success = False, message = ProcessingError,
                                 res_gameOver = Val False\<rparr>, g3)
                           | Inr m \<Rightarrow>
                               (\<lparr>success = True, message = m,
                                 res_gameOver = gameOver moveResult\<rparr>, g3))
                     else
                       (\<lparr>success = False,
                         message = InvalidMove (if truthy_str (reason moveResult)
                                                then text_of (reason moveResult)
                                                else ''Movimiento no permitido''),
                         res_gameOver = Val False\<rparr>, g))))"

subsection \<open>validateAIMove and generateAIMove\<close>

text \<open>
  Each function that sends requests returns the prompts it sent, in order. The number of
  the next request is the number of prompts sent so far in the operation.
\<close>

definition validateAIMove :: "ia_service \<Rightarrow> nat \<Rightarrow> game \<Rightarrow> string nullable \<Rightarrow> move_result \<times> prompt list" where
  "validateAIMove orc n g moveText' =
     (case buildMovePrompt g (pid (player2 g)) moveText' of
        Inl e \<Rightarrow> (invalid_result ''Error al validar el movimiento de IA.'', [])
      | Inr prompt \<Rightarrow>
          (case orc n prompt of
             None \<Rightarrow> (invalid_result ''Error al validar el movimiento de IA.'', [prompt])
           | Some response \<Rightarrow> (parseMoveResponse g response, [prompt])))"

text \<open>\<open>{...moveResult, ...validationResult}\<close>: every key that the second object has wins.\<close>

fun over :: "'a nullable \<Rightarrow> 'a nullable \<Rightarrow> 'a nullable" where
  "over a Undefined = a"
| "over a b = b"

definition spread :: "move_result \<Rightarrow> move_result \<Rightarrow> move_result" where
  "spread a b =
     \<lparr>valid = over (valid a) (valid b),
      normalizedMove = over (normalizedMove a) (normalizedMove b),
      reason = over (reason a) (reason b),
      isCheck = over (isCheck a) (isCheck b),
      isCheckmate = over (isCheckmate a) (isCheckmate b),
      isDraw = over (isDraw a) (isDraw b),
      checkPosition = over (checkPosition a) (checkPosition b),
      gameOver = over (gameOver a) (gameOver b),
      res_winner = over (res_winner a) (res_winner b),
      isCapture = over (isCapture a) (isCapture b),
      pieceMovedText = over (pieceMovedText a) (pieceMovedText b),
      fenResult = over (fenResult a) (fenResult b),
      moveText = over (moveText a) (moveText b),
      explanation = over (explanation a) (explanation b),
      messageIntro = over (messageIntro a) (messageIntro b)\<rparr>"

definition MAX_INTENTOS :: nat where
  "MAX_INTENTOS = 3"

datatype loop_outcome = Thrown exn | Accepted move_result | Exhausted

text \<open>
  The \<open>while\<close> loop of \<open>generateAIMove\<close>, from the state \<open>intentos\<close>, the prompts sent
  and \<open>historialIntentos\<close>; it returns how it ended, the final \<open>intentos\<close> and the
  prompts sent. A failing generation request leaves the loop through the \<open>catch\<close> of
  \<open>generateAIMove\<close>.
\<close>

function ai_loop :: "ia_service \<Rightarrow> game \<Rightarrow> nat \<Rightarrow> prompt list \<Rightarrow> attempt list
                       \<Rightarrow> loop_outcome \<times> nat \<times> prompt list" where
  "ai_loop orc g intentos sent hist =
     (if intentos < MAX_INTENTOS then
        (case buildAIPrompt g hist of
           Inl e \<Rightarrow> (Thrown e, intentos + 1, sent)
         | Inr prompt \<Rightarrow>
             (case orc (length sent) prompt of
                None \<Rightarrow> (Thrown OracleError, intentos + 1, sent @ [prompt])
              | Some response \<Rightarrow>
                  let moveResult = parseAIResponse g response
                  in if truthy (valid moveResult) then
                       (case validateAIMove orc (length sent + 1) g (moveText moveResult) of
                          (validationResult, sent2) \<Rightarrow>
                            if truthy (valid validationResult) then
                              (Accepted (spread moveResult validationResult), intentos + 1,
                               sent @ [prompt] @ sent2)
                            else
                              ai_loop orc g (intentos + 1) (sent @ [prompt] @ sent2)
                                (hist @ [\<lparr>a_moveText = moveText moveResult,
                                          a_reason = reason validationResult\<rparr>]))
                     else
                       ai_loop orc g (intentos + 1) (sent @ [prompt])
                         (hist @ [\<lparr>a_moveText = Val (''formato_inv'' @ [CHR 0xE1] @ ''lido''),
                                   a_reason = reason moveResult\<rparr>])))
      else (Exhausted, intentos, sent))"
  by pat_completeness auto
termination
  by (relation "measure (\<lambda>(orc, g, intentos, sent, hist). MAX_INTENTOS - intentos)") auto

declare ai_loop.simps [simp del]

definition generateAIMove :: "ia_service \<Rightarrow> nat \<Rightarrow> game \<Rightarrow> op_result option \<times> game \<times> prompt list" where
  "generateAIMove orc now g =
     (if \<not> vsAI g \<or> \<not> isAITurn g \<or> isFinished g then (None, g, [])
      else
        (case ai_loop orc g 0 [] [] of
           (Thrown e, intentos, sent) \<Rightarrow>
             (Some \<lparr>success = False, message = AIError, res_gameOver = Val False\<rparr>, g, sent)
         | (Exhausted, intentos, sent) \<Rightarrow>
             (Some \<lparr>success = False, message = AIExhausted, res_gameOver = Val False\<rparr>, g, sent)
         | (Accepted moveResult, intentos, sent) \<Rightarrow>
             let g1 = g\<lparr>moveHistory := moveHistory g @
                         [\<lparr>mv_player = pid (player2 g), mv_move = moveText moveResult,
                           mv_normalizedMove = normalizedMove moveResult,
                           mv_timestamp = now\<rparr>]\<rparr>;
                 g2 = applyMove moveResult g1;
                 g3 = (if \<not> truthy (gameOver moveResult) then switchTurn g2
                       else g2\<lparr>winner := res_winner moveResult, endTime := Val now\<rparr>)
             in (case renderGame g3 of
                   Inl e \<Rightarrow>
                     (Some \<lparr>success = False, message = AIError, res_gameOver = Val False\<rparr>,
                      g3, sent)
                 | Inr m \<Rightarrow>
                     (Some \<lparr>success = True,
                            message = AIMoved (if truthy_str (messageIntro moveResult)
                                               then text_of (messageIntro moveResult)
                                               else ''He movido:'')
                                              (text_of (moveText moveResult)),
                            res_gameOver = gameOver moveResult\<rparr>, g3, sent))))"

subsection \<open>surrender\<close>

text \<open>\<open>surrender\<close> has no \<open>try\<close>: an error of \<open>renderGame\<close> leaves it as an exception.\<close>

definition surrender :: "nat \<Rightarrow> string \<Rightarrow> game \<Rightarrow> (exn + op_result) \<times> game" where
  "surrender now playerId g =
     (if isFinished g then
        (Inr \<lparr>success = False, message = AlreadyFinished (winner g), res_gameOver = Val True\<rparr>, g)
      else if playerId \<noteq> pid (player1 g) \<and> playerId \<noteq> pid (player2 g) then
        (Inr \<lparr>success = False, message = NotParticipant, res_gameOver = Val False\<rparr>, g)
      else
        let g1 = g\<lparr>moveHistory := moveHistory g @
                    [\<lparr>mv_player = playerId, mv_move = Val ''surrender'',
                      mv_normalizedMove = Undefined, mv_timestamp = now\<rparr>],
                   winner := Val (if playerId = pid (player1 g) then WinPlayer2 else WinPlayer1),
                   endTime := Val now\<rparr>
        in (case renderGame g1 of
              Inl e \<Rightarrow> (Inl e, g1)
            | Inr m \<Rightarrow>
                (Inr \<lparr>success = True,
                      message = Surrendered (if playerId = pid (player1 g) then pname (player1 g)
                                             else pname (player2 g)) (winner g1),
                      res_gameOver = Val True\<rparr>, g1)))"

section \<open>GameManager\<close>

text \<open>
  The registry: the map \<open>activeSessions\<close> and the documents written under the data
  directory, one per channel (the document of a game is its \<open>getState()\<close>, modelled by the
  game itself). Whether the file system accepts a write is a parameter.
\<close>

record registry =
  activeSessions :: "string \<rightharpoonup> game"
  files :: "string \<rightharpoonup> game"

text \<open>
  \<open>GAME_TYPES[key]\<close> on the object literal with the keys \<open>ajedrez\<close> and \<open>chess\<close>. The
  lookup also finds what the object inherits; of those names only \<open>constructor\<close> and
  \<open>__proto__\<close> are in lower case. Such a value is truthy and is not a game class.
\<close>

datatype game_type_entry = ChessGameClass | InheritedProperty | NoEntry

definition GAME_TYPES :: "string \<Rightarrow> game_type_entry" where
  "GAME_TYPES key =
     (if key = ''ajedrez'' \<or> key = ''chess'' then ChessGameClass
      else if key = ''constructor'' \<or> key = ''__proto__'' then InheritedProperty
      else NoEntry)"

definition saveGameState :: "bool \<Rightarrow> string \<Rightarrow> game \<Rightarrow> registry \<Rightarrow> registry" where
  "saveGameState fs_ok channelId g reg =
     (if \<not> fs_ok then reg
      else
        let reg1 = reg\<lparr>files := (files reg)(channelId \<mapsto> g)\<rparr>
        in if isFinished g
           then reg1\<lparr>activeSessions := (activeSessions reg1)(channelId := None)\<rparr>
           else reg1)"

datatype start_result =
  Already_active game
| Unknown_game
| Initialization_failed
| Started game

text \<open>
  \<open>startGame\<close>, with the channel, the author and the time as arguments; \<open>opponent\<close> is
  \<open>None\<close> for \<open>null\<close>. Calling \<open>new\<close> and \<open>initialize\<close> on an inherited property throws,
  which the \<open>catch\<close> reports.
\<close>

definition startGame ::
  "bool \<Rightarrow> nat \<Rightarrow> string \<Rightarrow> string \<Rightarrow> string \<Rightarrow> string \<Rightarrow> player option \<Rightarrow> registry
     \<Rightarrow> start_result \<times> registry" where
  "startGame fs_ok now channelId userId username gameType opponent reg =
     (case (case activeSessions reg channelId of
              Some currentGame \<Rightarrow> if \<not> isFinished currentGame then Some currentGame else None
            | None \<Rightarrow> None) of
        Some currentGame \<Rightarrow> (Already_active currentGame, reg)
      | None \<Rightarrow>
          (case GAME_TYPES (toLowerCase gameType) of
             NoEntry \<Rightarrow> (Unknown_game, reg)
           | InheritedProperty \<Rightarrow> (Initialization_failed, reg)
           | ChessGameClass \<Rightarrow>
               let playAgainstAI = (opponent = None);
                   opponentId = (case opponent of None \<Rightarrow> ''AI'' | Some p \<Rightarrow> pid p);
                   opponentName = (case opponent of None \<Rightarrow> ''IA'' | Some p \<Rightarrow> pname p);
                   g = initialize userId username opponentId opponentName playAgainstAI now;
                   reg1 = reg\<lparr>activeSessions := (activeSessions reg)(channelId \<mapsto> g)\<rparr>
               in (Started g, saveGameState fs_ok channelId g reg1)))"

section \<open>Example sessions and replies\<close>

text \<open>A session between two people, and one against the oracle, both just started.\<close>

definition ex_session :: game where
  "ex_session = initialize ''1'' ''ana'' ''2'' ''ben'' False 0"

definition ex_ai_session :: game where
  "ex_ai_session = initialize ''1'' ''ana'' ''AI'' ''IA'' True 0"

text \<open>A complete validation reply for the move e2e4 from the initial position.\<close>

definition ex_reply_e2e4 :: string where
  "ex_reply_e2e4 =
     ''MOVIMIENTO_VALIDO: true\<newline>'' @
     ''MOVIMIENTO_NORMALIZADO: e2e4\<newline>'' @
     ''RAZON: avance de peon\<newline>'' @
     ''JAQUE: false\<newline>'' @
     ''JAQUE_MATE: false\<newline>'' @
     ''TABLAS: false\<newline>'' @
     ''POSICION_JAQUE: ninguno\<newline>'' @
     ''CAPTURA: false\<newline>'' @
     ''PIEZA_MOVIDA: peon\<newline>'' @
     ''FEN_RESULTANTE: rnbqkbnr/pppppppp/8/8/4P3/8/PPPP1PPP/RNBQKBNR b KQkq e3 0 1''"

text \<open>A reply that asserts validity and has no \<open>FEN_RESULTANTE\<close> line.\<close>

definition ex_reply_no_fen :: string where
  "ex_reply_no_fen = ''MOVIMIENTO_VALIDO: true\<newline>MOVIMIENTO_NORMALIZADO: e2e4''"

text \<open>The prompt that \<open>buildMovePrompt\<close> makes for the first player's e2e4 on \<open>ex_session\<close>.\<close>

definition ex_prompt_e2e4 :: prompt where
  "ex_prompt_e2e4 =
     MovePrompt ''rnbqkbnr/pppppppp/8/8/8/8/PPPPPPPP/RNBQKBNR w KQkq - 0 1'' ''Blancas''
       ''Ninguno (inicio de partida)'' ''ana'' ''Blancas'' ''e2e4''"

section \<open>Sequences of operations\<close>

text \<open>
  The operations that change a session after \<open>initialize\<close>, each with the oracle and the
  clock it meets, and a session after a sequence of them.
\<close>

datatype op =
  OpProcessMove ia_service nat string string
| OpGenerateAIMove ia_service nat
| OpSurrender nat string

fun apply_op :: "game \<Rightarrow> op \<Rightarrow> game" where
  "apply_op g (OpProcessMove orc now playerId moveText') =
     snd (processMove orc now playerId moveText' g)"
| "apply_op g (OpGenerateAIMove orc now) = fst (snd (generateAIMove orc now g))"
| "apply_op g (OpSurrender now playerId) = snd (surrender now playerId g)"

definition run :: "game \<Rightarrow> op list \<Rightarrow> game" where
  "run g ops = foldl apply_op g ops"

text \<open>The requests for a candidate move among the prompts sent.\<close>

fun is_AIPrompt :: "prompt \<Rightarrow> bool" where
  "is_AIPrompt (AIPrompt _ _ _ _ _ _) = True"
| "is_AIPrompt (MovePrompt _ _ _ _ _ _) = False"

text \<open>
  The session against the oracle after the first player's e2e4, validated by
  \<open>ex_reply_no_fen\<close>: it is the oracle's turn.
\<close>

definition ex_ai_turn :: game where
  "ex_ai_turn =
     snd (processMove (\<lambda>n p. Some (Val ex_reply_no_fen)) 5 ''1'' ''e2e4'' ex_ai_session)"

text \<open>
  An oracle that answers the first request with a candidate move and the second with a
  validation that disagrees with it on the normalized move and on the check.
\<close>

definition ex_candidate :: string where
  "ex_candidate = ''MOVIMIENTO: e7e5\<newline>JAQUE: true\<newline>FEN_RESULTANTE: x''"

definition ex_validation :: string where
  "ex_validation = ''MOVIMIENTO_VALIDO: true\<newline>MOVIMIENTO_NORMALIZADO: e7e6''"

definition ex_oracle :: ia_service where
  "ex_oracle n p = (if n = 0 then Some (Val ex_candidate) else Some (Val ex_validation))"

section \<open>Labels\<close>

text \<open>The label of a field occurs somewhere in a reply, in any case.\<close>

definition has_label :: "string \<Rightarrow> string \<Rightarrow> bool" where
  "has_label label s = (search (\<lambda>t. ci_prefix (map case_variants label) t) s \<noteq> None)"

section \<open>Well-formed positions\<close>

text \<open>
  A position whose board has eight rows of eight cells, no cell being a digit from 1 to 8
  or a slash, and whose en-passant target is \<open>null\<close> or a non-empty text without spaces
  other than \<open>-\<close>.
\<close>

definition wf_position :: "game \<Rightarrow> bool" where
  "wf_position g =
     (length (board (state g)) = 8
      \<and> list_all (\<lambda>r. length r = 8 \<and> list_all (\<lambda>c. c \<notin> set ''12345678/'') r) (board (state g))
      \<and> (case enPassantTarget (state g) of
            Null \<Rightarrow> True
          | Val s \<Rightarrow> s \<noteq> [] \<and> CHR '' '' \<notin> set s \<and> s \<noteq> ''-''
          | Undefined \<Rightarrow> False))"

text \<open>The text that the column loop of \<open>generateFEN\<close> writes for a row, cell by cell.\<close>

fun enc_cells :: "char list \<Rightarrow> nat \<Rightarrow> string" where
  "enc_cells [] e = (if e > 0 then show_nat e else [])"
| "enc_cells (c # cs) e =
     (if c = CHR '' '' then enc_cells cs (e + 1)
      else (if e > 0 then show_nat e else []) @ c # enc_cells cs 0)"

text \<open>
  A reply whose resulting position has a rank of nine squares (\<open>4P4\<close>), and the session
  after the first player's move validated by it.
\<close>

definition ex_reply_bad_fen :: string where
  "ex_reply_bad_fen =
     ''MOVIMIENTO_VALIDO: true\<newline>'' @
     ''FEN_RESULTANTE: rnbqkbnr/pppppppp/8/8/4P4/8/PPPP1PPP/RNBQKBNR b KQkq e3 0 1''"

definition ex_bad_state :: game where
  "ex_bad_state =
     run ex_session [OpProcessMove (\<lambda>n p. Some (Val ex_reply_bad_fen)) 5 ''1'' ''e2e4'']"

section \<open>Properties\<close>

subsection \<open>The guard of generateAIMove\<close>

text \<open>
  C10. Whenever the session is not against the oracle, or it is not the second player's
  turn, or the game is finished, \<open>generateAIMove\<close> returns \<open>null\<close>, sends no request and
  leaves the session as it was.
\<close>

theorem generateAIMove_guard:
  "\<not> vsAI g \<or> currentTurn g \<noteq> Player2 \<or> isFinished g
     \<Longrightarrow> generateAIMove orc now g = (None, g, [])"
  by (auto simp: generateAIMove_def isAITurn_def)

theorem generateAIMove_guard_witness:
  "\<not> vsAI (initialize ''1'' ''ana'' ''2'' ''ben'' False 0)
   \<and> generateAIMove (\<lambda>n p. None) 1 (initialize ''1'' ''ana'' ''2'' ''ben'' False 0)
       = (None, initialize ''1'' ''ana'' ''2'' ''ben'' False 0, [])
   \<and> currentTurn (initialize ''1'' ''ana'' ''AI'' ''IA'' True 0) \<noteq> Player2
   \<and> generateAIMove (\<lambda>n p. None) 1 (initialize ''1'' ''ana'' ''AI'' ''IA'' True 0)
       = (None, initialize ''1'' ''ana'' ''AI'' ''IA'' True 0, [])"
proof -
  have h: "\<not> vsAI (initialize ''1'' ''ana'' ''2'' ''ben'' False 0)"
    and k: "currentTurn (initialize ''1'' ''ana'' ''AI'' ''IA'' True 0) \<noteq> Player2"
    by (simp_all add: initialize_def)
  from h have h': "\<not> vsAI (initialize ''1'' ''ana'' ''2'' ''ben'' False 0)
      \<or> currentTurn (initialize ''1'' ''ana'' ''2'' ''ben'' False 0) \<noteq> Player2
      \<or> isFinished (initialize ''1'' ''ana'' ''2'' ''ben'' False 0)"
    by simp
  from k have k': "\<not> vsAI (initialize ''1'' ''ana'' ''AI'' ''IA'' True 0)
      \<or> currentTurn (initialize ''1'' ''ana'' ''AI'' ''IA'' True 0) \<noteq> Player2
      \<or> isFinished (initialize ''1'' ''ana'' ''AI'' ''IA'' True 0)"
    by simp
  from generateAIMove_guard [OF h'] generateAIMove_guard [OF k'] h k show ?thesis by simp
qed

subsection \<open>What applying a move leaves alone\<close>

lemma updateBoardFromFEN_frame:
  "moveHistory (updateBoardFromFEN fen g) = moveHistory g"
  "currentTurn (updateBoardFromFEN fen g) = currentTurn g"
  "winner (updateBoardFromFEN fen g) = winner g"
  "endTime (updateBoardFromFEN fen g) = endTime g"
  "player1 (updateBoardFromFEN fen g) = player1 g"
  "player2 (updateBoardFromFEN fen g) = player2 g"
  "vsAI (updateBoardFromFEN fen g) = vsAI g"
  by (simp_all add: updateBoardFromFEN_def Let_def)

lemma applyMove_frame:
  "moveHistory (applyMove r g) = moveHistory g"
  "currentTurn (applyMove r g) = currentTurn g"
  "endTime (applyMove r g) = endTime g"
  "player1 (applyMove r g) = player1 g"
  "player2 (applyMove r g) = player2 g"
  "vsAI (applyMove r g) = vsAI g"
  by (simp_all add: applyMove_def Let_def updateBoardFromFEN_frame split: nullable.split)

lemma applyMove_winner:
  "winner (applyMove r g) =
     (if truthy (valid r) \<and> truthy (gameOver r) then res_winner r else winner g)"
  by (simp add: applyMove_def Let_def updateBoardFromFEN_frame split: nullable.split)

subsection \<open>Surrender\<close>

text \<open>
  C8, as stated: on every session that is not finished, \<open>surrender(playerId)\<close> appends a
  move with the text \<open>surrender\<close>, sets the winner and the end time. The code first checks
  that \<open>playerId\<close> is one of the two players: on a fresh session between players \<open>1\<close>
  and \<open>2\<close>, the surrender of \<open>3\<close> appends nothing and sets neither winner nor end time.
\<close>

theorem surrender_counterexample:
  "\<not> isFinished (initialize ''1'' ''ana'' ''2'' ''ben'' False 0)
   \<and> moveHistory (snd (surrender 5 ''3'' (initialize ''1'' ''ana'' ''2'' ''ben'' False 0))) = []
   \<and> winner (snd (surrender 5 ''3'' (initialize ''1'' ''ana'' ''2'' ''ben'' False 0))) = Null
   \<and> endTime (snd (surrender 5 ''3'' (initialize ''1'' ''ana'' ''2'' ''ben'' False 0))) = Null"
  by (simp add: surrender_def initialize_def isFinished_def)

text \<open>
  C8, amended. On a session that is not finished, the surrender of one of its two players
  appends one move with the text \<open>surrender\<close>, sets the winner to the other player, sets
  the end time and leaves the session finished; the surrender of anybody else is refused
  and changes nothing; on a finished session \<open>surrender\<close> changes nothing and reports
  that the game has ended.
\<close>

theorem surrender_effect:
  "(\<not> isFinished g \<and> (playerId = pid (player1 g) \<or> playerId = pid (player2 g)) \<longrightarrow>
      snd (surrender now playerId g) =
        g\<lparr>moveHistory := moveHistory g @
             [\<lparr>mv_player = playerId, mv_move = Val ''surrender'',
               mv_normalizedMove = Undefined, mv_timestamp = now\<rparr>],
          winner := Val (if playerId = pid (player1 g) then WinPlayer2 else WinPlayer1),
          endTime := Val now\<rparr>
      \<and> isFinished (snd (surrender now playerId g)))
   \<and> (\<not> isFinished g \<and> playerId \<noteq> pid (player1 g) \<and> playerId \<noteq> pid (player2 g) \<longrightarrow>
        surrender now playerId g =
          (Inr \<lparr>success = False, message = NotParticipant, res_gameOver = Val False\<rparr>, g))
   \<and> (isFinished g \<longrightarrow>
        surrender now playerId g =
          (Inr \<lparr>success = False, message = AlreadyFinished (winner g),
                res_gameOver = Val True\<rparr>, g))"
  by (auto simp: surrender_def Let_def isFinished_def split: sum.splits)

theorem surrender_effect_witness:
  "(\<not> isFinished (initialize ''1'' ''ana'' ''2'' ''ben'' False 0)
    \<and> (''2'' = pid (player1 (initialize ''1'' ''ana'' ''2'' ''ben'' False 0))
       \<or> ''2'' = pid (player2 (initialize ''1'' ''ana'' ''2'' ''ben'' False 0))))
   \<and> winner (snd (surrender 5 ''2'' (initialize ''1'' ''ana'' ''2'' ''ben'' False 0))) = Val WinPlayer1
   \<and> map mv_move (moveHistory (snd (surrender 5 ''2'' (initialize ''1'' ''ana'' ''2'' ''ben'' False 0))))
       = [Val ''surrender'']
   \<and> isFinished (snd (surrender 5 ''2'' (initialize ''1'' ''ana'' ''2'' ''ben'' False 0)))
   \<and> snd (surrender 6 ''1'' (snd (surrender 5 ''2'' (initialize ''1'' ''ana'' ''2'' ''ben'' False 0))))
       = snd (surrender 5 ''2'' (initialize ''1'' ''ana'' ''2'' ''ben'' False 0))
   \<and> snd (surrender 5 ''3'' (initialize ''1'' ''ana'' ''2'' ''ben'' False 0))
       = initialize ''1'' ''ana'' ''2'' ''ben'' False 0"
  using surrender_effect [of "initialize ''1'' ''ana'' ''2'' ''ben'' False 0" "''2''" 5]
        surrender_effect [of "snd (surrender 5 ''2'' (initialize ''1'' ''ana'' ''2'' ''ben'' False 0))" "''1''" 6]
        surrender_effect [of "initialize ''1'' ''ana'' ''2'' ''ben'' False 0" "''3''" 5]
  by (simp add: initialize_def isFinished_def)

subsection \<open>Starting a game\<close>

text \<open>
  C7. \<open>startGame\<close> reports \<open>already_active\<close> exactly when the channel has a session
  that is not finished. When the channel has no session, or a finished one, and the
  requested type in lower case is \<open>ajedrez\<close> or \<open>chess\<close>, it succeeds and makes a fresh
  session the session of the channel: not finished, without moves, the first player to
  move, the initial position.
\<close>

theorem startGame_conflict:
  "((\<exists>cur. fst (startGame fs_ok now channelId userId username gameType opponent reg) = Already_active cur)
      \<longleftrightarrow> (\<exists>cur. activeSessions reg channelId = Some cur \<and> \<not> isFinished cur))
   \<and> ((\<forall>cur. activeSessions reg channelId = Some cur \<longrightarrow> isFinished cur)
        \<and> toLowerCase gameType \<in> {''ajedrez'', ''chess''} \<longrightarrow>
        (let g = initialize userId username
                   (case opponent of None \<Rightarrow> ''AI'' | Some p \<Rightarrow> pid p)
                   (case opponent of None \<Rightarrow> ''IA'' | Some p \<Rightarrow> pname p)
                   (opponent = None) now
         in fst (startGame fs_ok now channelId userId username gameType opponent reg) = Started g
            \<and> activeSessions (snd (startGame fs_ok now channelId userId username gameType opponent reg)) channelId = Some g
            \<and> \<not> isFinished g \<and> moveHistory g = [] \<and> currentTurn g = Player1
            \<and> state g = initializeGameState))"
  by (auto simp: startGame_def Let_def GAME_TYPES_def saveGameState_def isFinished_def initialize_def
           split: option.splits game_type_entry.splits)

theorem startGame_conflict_witness:
  "(isFinished (snd (surrender 5 ''1'' (initialize ''1'' ''ana'' ''2'' ''ben'' False 0)))
    \<and> toLowerCase ''Chess'' = ''chess'')
   \<and> fst (startGame True 9 ''c'' ''7'' ''eve'' ''Chess'' None
            \<lparr>activeSessions = [''c'' \<mapsto> snd (surrender 5 ''1'' (initialize ''1'' ''ana'' ''2'' ''ben'' False 0))],
             files = Map.empty\<rparr>)
       = Started (initialize ''7'' ''eve'' ''AI'' ''IA'' True 9)
   \<and> (\<exists>cur. fst (startGame True 9 ''c'' ''7'' ''eve'' ''Chess'' None
            \<lparr>activeSessions = [''c'' \<mapsto> initialize ''1'' ''ana'' ''2'' ''ben'' False 0],
             files = Map.empty\<rparr>) = Already_active cur)"
proof -
  have low: "toLowerCase ''Chess'' = ''chess''"
    by code_simp
  have fin: "isFinished (snd (surrender 5 ''1'' (initialize ''1'' ''ana'' ''2'' ''ben'' False 0)))"
    by (auto simp: surrender_def initialize_def isFinished_def Let_def split: sum.splits)
  have act: "\<not> isFinished (initialize ''1'' ''ana'' ''2'' ''ben'' False 0)"
    by (simp add: initialize_def isFinished_def)
  show ?thesis
    using startGame_conflict [of True 9 "''c''" "''7''" "''eve''" "''Chess''" None
            "\<lparr>activeSessions = [''c'' \<mapsto> snd (surrender 5 ''1'' (initialize ''1'' ''ana'' ''2'' ''ben'' False 0))],
             files = Map.empty\<rparr>"]
          startGame_conflict [of True 9 "''c''" "''7''" "''eve''" "''Chess''" None
            "\<lparr>activeSessions = [''c'' \<mapsto> initialize ''1'' ''ana'' ''2'' ''ben'' False 0],
             files = Map.empty\<rparr>"]
          low fin act
    by (simp add: Let_def)
qed

subsection \<open>A valid, non-terminal human move\<close>

lemma updateBoardFromFEN_rows:
  "8 \<le> length (board (state g)) \<Longrightarrow> 8 \<le> length (board (state (updateBoardFromFEN fen g)))"
  by (simp add: updateBoardFromFEN_def Let_def)

lemma applyMove_rows:
  "8 \<le> length (board (state g)) \<Longrightarrow> 8 \<le> length (board (state (applyMove r g)))"
  by (simp add: applyMove_def Let_def updateBoardFromFEN_rows split: nullable.split)

lemma buildMovePrompt_rows:
  "buildMovePrompt g playerId t = Inr prompt \<Longrightarrow> 8 \<le> length (board (state g))"
  by (simp add: buildMovePrompt_def generateFEN_def Let_def split: if_splits)

lemma renderGame_ok:
  "8 \<le> length (board (state g)) \<Longrightarrow> renderGame g = Inr Rendered"
  by (simp add: renderGame_def)

text \<open>
  C6. On a session that is not finished, when the player whose turn it is submits a move,
  the request is sent and the reply is parsed as valid and not terminal, \<open>processMove\<close>
  appends exactly one entry to \<open>moveHistory\<close>, carrying the submitted text and the
  normalized move of the reply, passes the turn to the other player, leaves the session
  unfinished and reports success. So the turn alternates along successive such calls.
\<close>

theorem processMove_valid_nonterminal:
  assumes "\<not> isFinished g" and "isPlayerTurn g playerId"
    and "buildMovePrompt g playerId (Val moveText') = Inr prompt"
    and "orc 0 prompt = Some response"
    and "truthy (valid (parseMoveResponse g response))"
    and "\<not> truthy (gameOver (parseMoveResponse g response))"
  shows "moveHistory (snd (processMove orc now playerId moveText' g)) =
           moveHistory g @ [\<lparr>mv_player = playerId, mv_move = Val moveText',
                             mv_normalizedMove = normalizedMove (parseMoveResponse g response),
                             mv_timestamp = now\<rparr>]
       \<and> currentTurn (snd (processMove orc now playerId moveText' g)) =
           (if currentTurn g = Player1 then Player2 else Player1)
       \<and> \<not> isFinished (snd (processMove orc now playerId moveText' g))
       \<and> success (fst (processMove orc now playerId moveText' g))"
proof -
  let ?mr = "parseMoveResponse g response"
  let ?g1 = "g\<lparr>moveHistory := moveHistory g @
                 [\<lparr>mv_player = playerId, mv_move = Val moveText',
                   mv_normalizedMove = normalizedMove ?mr, mv_timestamp = now\<rparr>]\<rparr>"
  let ?g3 = "switchTurn (applyMove ?mr ?g1)"
  have rows: "8 \<le> length (board (state ?g3))"
    using buildMovePrompt_rows [OF assms(3)] applyMove_rows [of ?g1 ?mr]
    by (simp add: switchTurn_def)
  have run: "processMove orc now playerId moveText' g =
               (\<lparr>success = True, message = Rendered, res_gameOver = gameOver ?mr\<rparr>, ?g3)"
    using assms renderGame_ok [OF rows] by (simp add: processMove_def Let_def)
  show ?thesis
    using assms(1,6)
    by (simp add: run switchTurn_def applyMove_frame applyMove_winner isFinished_def)
qed

subsection \<open>Evaluating the example replies\<close>

lemma ex_session_prompt:
  "buildMovePrompt ex_session ''1'' (Val ''e2e4'') = Inr ex_prompt_e2e4"
  by code_simp

lemma ex_session_turn: "\<not> isFinished ex_session \<and> isPlayerTurn ex_session ''1''"
  by code_simp

lemma parseMoveResponse_fields:
  "valid (parseMoveResponse g (Val s)) = bool_field ''MOVIMIENTO_VALIDO:'' s"
  "gameOver (parseMoveResponse g (Val s)) =
     js_or (bool_field ''JAQUE_MATE:'' s) (bool_field ''TABLAS:'' s)"
  "normalizedMove (parseMoveResponse g (Val s)) =
     (case match_field ''MOVIMIENTO_NORMALIZADO:'' grp_move s of
        None \<Rightarrow> Null | Some v \<Rightarrow> Val (toLowerCase v))"
  "fenResult (parseMoveResponse g (Val s)) =
     (case match_field ''FEN_RESULTANTE:'' grp_line s of
        None \<Rightarrow> Null | Some v \<Rightarrow> Val (trim v))"
  by (simp_all add: parseMoveResponse_def parseMoveResponse_try_def Let_def)

lemma ex_reply_e2e4_fields:
  "bool_field ''MOVIMIENTO_VALIDO:'' ex_reply_e2e4 = Val True"
  "bool_field ''JAQUE_MATE:'' ex_reply_e2e4 = Val False"
  "bool_field ''TABLAS:'' ex_reply_e2e4 = Val False"
  "match_field ''MOVIMIENTO_NORMALIZADO:'' grp_move ex_reply_e2e4 = Some ''e2e4''"
  by code_simp+

lemma lower_e2e4: "toLowerCase ''e2e4'' = ''e2e4''"
  by code_simp

lemma ex_reply_e2e4_parsed:
  "truthy (valid (parseMoveResponse ex_session (Val ex_reply_e2e4)))
   \<and> \<not> truthy (gameOver (parseMoveResponse ex_session (Val ex_reply_e2e4)))
   \<and> normalizedMove (parseMoveResponse ex_session (Val ex_reply_e2e4)) = Val ''e2e4''"
  by (simp add: parseMoveResponse_fields ex_reply_e2e4_fields lower_e2e4 js_or_def)

theorem processMove_valid_nonterminal_witness:
  "(\<not> isFinished ex_session \<and> isPlayerTurn ex_session ''1''
    \<and> buildMovePrompt ex_session ''1'' (Val ''e2e4'') = Inr ex_prompt_e2e4
    \<and> truthy (valid (parseMoveResponse ex_session (Val ex_reply_e2e4)))
    \<and> \<not> truthy (gameOver (parseMoveResponse ex_session (Val ex_reply_e2e4))))
   \<and> moveHistory (snd (processMove (\<lambda>n p. Some (Val ex_reply_e2e4)) 5 ''1'' ''e2e4'' ex_session))
       = [\<lparr>mv_player = ''1'', mv_move = Val ''e2e4'', mv_normalizedMove = Val ''e2e4'',
            mv_timestamp = 5\<rparr>]
   \<and> currentTurn (snd (processMove (\<lambda>n p. Some (Val ex_reply_e2e4)) 5 ''1'' ''e2e4'' ex_session))
       = Player2"
proof -
  have mh: "moveHistory ex_session = []" and ct: "currentTurn ex_session = Player1"
    by (simp_all add: ex_session_def initialize_def)
  show ?thesis
    using processMove_valid_nonterminal
            [of ex_session "''1''" "''e2e4''" ex_prompt_e2e4 "\<lambda>n p. Some (Val ex_reply_e2e4)"
                "Val ex_reply_e2e4" 5]
          ex_session_prompt ex_session_turn ex_reply_e2e4_parsed mh ct
    by simp
qed

subsection \<open>A valid reply without resulting position\<close>

text \<open>
  C3, as stated: a reply to a human move that asserts validity and has no
  \<open>FEN_RESULTANTE\<close> field is treated as invalid, and no move is appended. On the
  fresh session \<open>ex_session\<close>, with the reply \<open>ex_reply_no_fen\<close> to the first
  player's e2e4, \<open>processMove\<close> reports success, appends the move and passes the turn.
\<close>

theorem processMove_missing_fen_counterexample:
  "\<not> isFinished ex_session \<and> isPlayerTurn ex_session ''1''
   \<and> truthy (valid (parseMoveResponse ex_session (Val ex_reply_no_fen)))
   \<and> match_field ''FEN_RESULTANTE:'' grp_line ex_reply_no_fen = None
   \<and> success (fst (processMove (\<lambda>n p. Some (Val ex_reply_no_fen)) 5 ''1'' ''e2e4'' ex_session))
   \<and> moveHistory (snd (processMove (\<lambda>n p. Some (Val ex_reply_no_fen)) 5 ''1'' ''e2e4'' ex_session))
       = [\<lparr>mv_player = ''1'', mv_move = Val ''e2e4'', mv_normalizedMove = Val ''e2e4'',
            mv_timestamp = 5\<rparr>]
   \<and> currentTurn (snd (processMove (\<lambda>n p. Some (Val ex_reply_no_fen)) 5 ''1'' ''e2e4'' ex_session))
       = Player2"
  by code_simp

lemma parseMoveResponse_no_fen:
  "match_field ''FEN_RESULTANTE:'' grp_line s = None
     \<Longrightarrow> fenResult (parseMoveResponse g (Val s)) = Null"
  by (simp add: parseMoveResponse_fields)

lemma applyMove_no_fen:
  "truthy (valid r) \<Longrightarrow> fenResult r = Null \<Longrightarrow>
     board (state (applyMove r g)) = board (state g)
   \<and> castlingRights (state (applyMove r g)) = castlingRights (state g)
   \<and> enPassantTarget (state (applyMove r g)) = enPassantTarget (state g)
   \<and> halfMoveClock (state (applyMove r g)) = halfMoveClock (state g)
   \<and> lastMove (state (applyMove r g)) = normalizedMove r
   \<and> check (state (applyMove r g)) = checkPosition r"
  by (simp add: applyMove_def Let_def)

text \<open>
  C3, amended. \<open>applyMove\<close> decodes the resulting position only when the reply has
  one. When the reply to a human move asserts validity and has no \<open>FEN_RESULTANTE\<close>
  field, the move is accepted: \<open>processMove\<close> reports success and appends one move;
  the last move and the check square are those of the reply, and the board, the castling
  rights, the en-passant target and the half-move clock stay as they were.
\<close>

theorem processMove_valid_without_fen:
  assumes "\<not> isFinished g" and "isPlayerTurn g playerId"
    and "buildMovePrompt g playerId (Val moveText') = Inr prompt"
    and "orc 0 prompt = Some (Val s)"
    and "truthy (valid (parseMoveResponse g (Val s)))"
    and "match_field ''FEN_RESULTANTE:'' grp_line s = None"
  shows "success (fst (processMove orc now playerId moveText' g))
       \<and> moveHistory (snd (processMove orc now playerId moveText' g)) =
           moveHistory g @ [\<lparr>mv_player = playerId, mv_move = Val moveText',
                             mv_normalizedMove = normalizedMove (parseMoveResponse g (Val s)),
                             mv_timestamp = now\<rparr>]
       \<and> board (state (snd (processMove orc now playerId moveText' g))) = board (state g)
       \<and> castlingRights (state (snd (processMove orc now playerId moveText' g)))
           = castlingRights (state g)
       \<and> enPassantTarget (state (snd (processMove orc now playerId moveText' g)))
           = enPassantTarget (state g)
       \<and> halfMoveClock (state (snd (processMove orc now playerId moveText' g)))
           = halfMoveClock (state g)
       \<and> lastMove (state (snd (processMove orc now playerId moveText' g)))
           = normalizedMove (parseMoveResponse g (Val s))
       \<and> check (state (snd (processMove orc now playerId moveText' g)))
           = checkPosition (parseMoveResponse g (Val s))"
proof -
  let ?mr = "parseMoveResponse g (Val s)"
  let ?g1 = "g\<lparr>moveHistory := moveHistory g @
                 [\<lparr>mv_player = playerId, mv_move = Val moveText',
                   mv_normalizedMove = normalizedMove ?mr, mv_timestamp = now\<rparr>]\<rparr>"
  let ?g2 = "applyMove ?mr ?g1"
  let ?g3 = "if \<not> truthy (gameOver ?mr) then switchTurn ?g2
             else ?g2\<lparr>winner := res_winner ?mr, endTime := Val now\<rparr>"
  have nofen: "fenResult ?mr = Null"
    by (rule parseMoveResponse_no_fen [OF assms(6)])
  have st: "state ?g3 = state ?g2"
    by (simp add: switchTurn_def)
  have rows: "8 \<le> length (board (state ?g3))"
    using buildMovePrompt_rows [OF assms(3)] applyMove_rows [of ?g1 ?mr]
    unfolding st by simp
  have run: "processMove orc now playerId moveText' g =
               (\<lparr>success = True, message = Rendered, res_gameOver = gameOver ?mr\<rparr>, ?g3)"
    using assms(1-5) renderGame_ok [OF rows] by (simp add: processMove_def Let_def)
  have mh: "moveHistory ?g3 = moveHistory ?g1"
    by (simp add: switchTurn_def applyMove_frame)
  show ?thesis
    using applyMove_no_fen [OF assms(5) nofen, of ?g1]
    unfolding run by (simp add: st mh)
qed

theorem processMove_valid_without_fen_witness:
  "(\<not> isFinished ex_session \<and> isPlayerTurn ex_session ''1''
    \<and> buildMovePrompt ex_session ''1'' (Val ''e2e4'') = Inr ex_prompt_e2e4
    \<and> truthy (valid (parseMoveResponse ex_session (Val ex_reply_no_fen)))
    \<and> match_field ''FEN_RESULTANTE:'' grp_line ex_reply_no_fen = None)
   \<and> success (fst (processMove (\<lambda>n p. Some (Val ex_reply_no_fen)) 5 ''1'' ''e2e4'' ex_session))
   \<and> board (state (snd (processMove (\<lambda>n p. Some (Val ex_reply_no_fen)) 5 ''1'' ''e2e4'' ex_session)))
       = initial_board
   \<and> length (moveHistory (snd (processMove (\<lambda>n p. Some (Val ex_reply_no_fen)) 5 ''1'' ''e2e4''
                                  ex_session))) = 1"
proof -
  have "bool_field ''MOVIMIENTO_VALIDO:'' ex_reply_no_fen = Val True"
    by code_simp
  then have p: "truthy (valid (parseMoveResponse ex_session (Val ex_reply_no_fen)))"
    by (simp add: parseMoveResponse_fields)
  have m: "match_field ''FEN_RESULTANTE:'' grp_line ex_reply_no_fen = None"
    by code_simp
  have mh: "moveHistory ex_session = []" and b: "board (state ex_session) = initial_board"
    by (simp_all add: ex_session_def initialize_def initializeGameState_def)
  show ?thesis
    using processMove_valid_without_fen
            [of ex_session "''1''" "''e2e4''" ex_prompt_e2e4 "\<lambda>n p. Some (Val ex_reply_no_fen)"
                ex_reply_no_fen 5]
          ex_session_prompt ex_session_turn p m mh b
    by simp
qed

subsection \<open>The loop of generateAIMove\<close>

lemma validateAIMove_sent:
  "validateAIMove orc n g t = (v, sent2) \<Longrightarrow> filter is_AIPrompt sent2 = []"
  by (auto simp: validateAIMove_def buildMovePrompt_def split: sum.splits option.splits)

lemma buildAIPrompt_is_AIPrompt:
  "buildAIPrompt g hist = Inr p \<Longrightarrow> is_AIPrompt p"
  by (auto simp: buildAIPrompt_def split: sum.splits)

lemma ai_loop_bound:
  "ai_loop orc g intentos sent hist = (out, intentos', sent') \<Longrightarrow>
     length (filter is_AIPrompt sent') + intentos
       \<le> length (filter is_AIPrompt sent) + max intentos MAX_INTENTOS
     \<and> (out = Exhausted \<longrightarrow> intentos' = max intentos MAX_INTENTOS)"
proof (induction orc g intentos sent hist rule: ai_loop.induct)
  case (1 orc g intentos sent hist)
  show ?case
  proof (cases "intentos < MAX_INTENTOS")
    case False
    with "1.prems" show ?thesis by (simp add: ai_loop.simps)
  next
    case lt: True
    show ?thesis
    proof (cases "buildAIPrompt g hist")
      case (Inl e)
      with "1.prems" lt show ?thesis by (auto simp: ai_loop.simps)
    next
      case (Inr prompt)
      note bp = this
      have ip: "is_AIPrompt prompt" by (rule buildAIPrompt_is_AIPrompt [OF bp])
      show ?thesis
      proof (cases "orc (length sent) prompt")
        case None
        with "1.prems" lt bp ip show ?thesis by (auto simp: ai_loop.simps)
      next
        case (Some response)
        note orc = this
        let ?mr = "parseAIResponse g response"
        show ?thesis
        proof (cases "truthy (valid ?mr)")
          case False
          with "1.prems" lt bp orc
          have "ai_loop orc g (intentos + 1) (sent @ [prompt])
                  (hist @ [\<lparr>a_moveText = Val (''formato_inv'' @ [CHR 0xE1] @ ''lido''),
                            a_reason = reason ?mr\<rparr>]) = (out, intentos', sent')"
            by (simp add: ai_loop.simps [of orc g intentos])
          from "1.IH"(2) [OF lt bp orc refl False this] lt ip show ?thesis
            by auto
        next
          case True
          obtain v sent2 where va: "validateAIMove orc (length sent + 1) g (moveText ?mr) = (v, sent2)"
            by (cases "validateAIMove orc (length sent + 1) g (moveText ?mr)")
          have s2: "filter is_AIPrompt sent2 = []" by (rule validateAIMove_sent [OF va])
          show ?thesis
          proof (cases "truthy (valid v)")
            case True
            with "1.prems" lt bp orc \<open>truthy (valid ?mr)\<close> va s2 ip show ?thesis
              by (auto simp: ai_loop.simps [of orc g intentos])
          next
            case False
            with "1.prems" lt bp orc \<open>truthy (valid ?mr)\<close> va
            have "ai_loop orc g (intentos + 1) (sent @ [prompt] @ sent2)
                    (hist @ [\<lparr>a_moveText = moveText ?mr, a_reason = reason v\<rparr>])
                  = (out, intentos', sent')"
              by (simp add: ai_loop.simps [of orc g intentos])
            from "1.IH"(1) [OF lt bp orc refl \<open>truthy (valid ?mr)\<close> va [symmetric] False this]
              lt ip s2
            show ?thesis by auto
          qed
        qed
      qed
    qed
  qed
qed


lemma validateAIMove_valid:
  assumes "validateAIMove orc n g t = (v, sent2)" and "truthy (valid v)"
  shows "\<exists>vprompt vresponse.
           buildMovePrompt g (pid (player2 g)) t = Inr vprompt \<and> orc n vprompt = Some vresponse
         \<and> v = parseMoveResponse g vresponse \<and> sent2 = [vprompt]"
  using assms
  by (auto simp: validateAIMove_def invalid_result_def split: sum.splits option.splits)

lemma ai_loop_accepted:
  "ai_loop orc g intentos sent hist = (Accepted m, intentos', sent') \<Longrightarrow>
     \<exists>hist' j aprompt response vprompt vresponse.
        buildAIPrompt g hist' = Inr aprompt \<and> orc j aprompt = Some response
      \<and> truthy (valid (parseAIResponse g response))
      \<and> buildMovePrompt g (pid (player2 g)) (moveText (parseAIResponse g response)) = Inr vprompt
      \<and> orc (Suc j) vprompt = Some vresponse
      \<and> truthy (valid (parseMoveResponse g vresponse))
      \<and> m = spread (parseAIResponse g response) (parseMoveResponse g vresponse)
      \<and> j = length sent' - 2 \<and> drop (length sent' - 2) sent' = [aprompt, vprompt]"
proof (induction orc g intentos sent hist rule: ai_loop.induct)
  case (1 orc g intentos sent hist)
  show ?case
  proof (cases "intentos < MAX_INTENTOS")
    case False
    with "1.prems" show ?thesis by (simp add: ai_loop.simps)
  next
    case lt: True
    show ?thesis
    proof (cases "buildAIPrompt g hist")
      case (Inl e)
      with "1.prems" lt show ?thesis by (simp add: ai_loop.simps)
    next
      case (Inr prompt)
      note bp = this
      show ?thesis
      proof (cases "orc (length sent) prompt")
        case None
        with "1.prems" lt bp show ?thesis by (simp add: ai_loop.simps)
      next
        case (Some response)
        note orc = this
        let ?mr = "parseAIResponse g response"
        show ?thesis
        proof (cases "truthy (valid ?mr)")
          case False
          with "1.prems" lt bp orc
          have "ai_loop orc g (intentos + 1) (sent @ [prompt])
                  (hist @ [\<lparr>a_moveText = Val (''formato_inv'' @ [CHR 0xE1] @ ''lido''),
                            a_reason = reason ?mr\<rparr>]) = (Accepted m, intentos', sent')"
            by (simp add: ai_loop.simps [of orc g intentos])
          from "1.IH"(2) [OF lt bp orc refl False this] show ?thesis .
        next
          case True
          obtain v sent2 where va: "validateAIMove orc (length sent + 1) g (moveText ?mr) = (v, sent2)"
            by (cases "validateAIMove orc (length sent + 1) g (moveText ?mr)")
          show ?thesis
          proof (cases "truthy (valid v)")
            case vt: True
            from validateAIMove_valid [OF va vt] obtain vprompt vresponse where
              vp: "buildMovePrompt g (pid (player2 g)) (moveText ?mr) = Inr vprompt"
              and vo: "orc (length sent + 1) vprompt = Some vresponse"
              and vv: "v = parseMoveResponse g vresponse" and s2: "sent2 = [vprompt]"
              by blast
            from "1.prems" lt bp orc True va vt
            have m: "m = spread ?mr v" and s': "sent' = sent @ [prompt] @ sent2"
              by (simp_all add: ai_loop.simps [of orc g intentos])
            have "buildAIPrompt g hist = Inr prompt \<and> orc (length sent) prompt = Some response
                \<and> truthy (valid ?mr)
                \<and> buildMovePrompt g (pid (player2 g)) (moveText ?mr) = Inr vprompt
                \<and> orc (Suc (length sent)) vprompt = Some vresponse
                \<and> truthy (valid (parseMoveResponse g vresponse))
                \<and> m = spread ?mr (parseMoveResponse g vresponse)
                \<and> length sent = length sent' - 2
                \<and> drop (length sent' - 2) sent' = [prompt, vprompt]"
              using bp orc True vp vo vt vv m s' s2 by simp
            then show ?thesis by blast
          next
            case False
            with "1.prems" lt bp orc True va
            have "ai_loop orc g (intentos + 1) (sent @ [prompt] @ sent2)
                    (hist @ [\<lparr>a_moveText = moveText ?mr, a_reason = reason v\<rparr>])
                  = (Accepted m, intentos', sent')"
              by (simp add: ai_loop.simps [of orc g intentos])
            from "1.IH"(1) [OF lt bp orc refl True va [symmetric] False this]
            show ?thesis .
          qed
        qed
      qed
    qed
  qed
qed

lemma parseMoveResponse_keys:
  assumes "truthy (valid (parseMoveResponse g r))"
  shows "valid (parseMoveResponse g r) \<noteq> Undefined"
    and "normalizedMove (parseMoveResponse g r) \<noteq> Undefined"
    and "reason (parseMoveResponse g r) \<noteq> Undefined"
    and "isCheck (parseMoveResponse g r) \<noteq> Undefined"
    and "isCheckmate (parseMoveResponse g r) \<noteq> Undefined"
    and "isDraw (parseMoveResponse g r) \<noteq> Undefined"
    and "checkPosition (parseMoveResponse g r) \<noteq> Undefined"
    and "gameOver (parseMoveResponse g r) \<noteq> Undefined"
    and "res_winner (parseMoveResponse g r) \<noteq> Undefined"
    and "isCapture (parseMoveResponse g r) \<noteq> Undefined"
    and "pieceMovedText (parseMoveResponse g r) \<noteq> Undefined"
    and "fenResult (parseMoveResponse g r) \<noteq> Undefined"
  using assms
  by (auto simp: parseMoveResponse_def parseMoveResponse_try_def invalid_result_def Let_def
                 bool_field_def square_field_def js_or_def winner_of_def
           split: nullable.splits option.splits if_splits)

lemma over_defined: "b \<noteq> Undefined \<Longrightarrow> over a b = b"
  by (cases b) simp_all


lemma parseMoveResponse_moveText: "moveText (parseMoveResponse g r) = Undefined"
  by (simp add: parseMoveResponse_def parseMoveResponse_try_def invalid_result_def Let_def
           split: nullable.splits)

lemma spread_validated:
  assumes "truthy (valid (parseMoveResponse g r))"
  shows "valid (spread c (parseMoveResponse g r)) = valid (parseMoveResponse g r)"
    and "normalizedMove (spread c (parseMoveResponse g r)) = normalizedMove (parseMoveResponse g r)"
    and "checkPosition (spread c (parseMoveResponse g r)) = checkPosition (parseMoveResponse g r)"
    and "gameOver (spread c (parseMoveResponse g r)) = gameOver (parseMoveResponse g r)"
    and "res_winner (spread c (parseMoveResponse g r)) = res_winner (parseMoveResponse g r)"
    and "fenResult (spread c (parseMoveResponse g r)) = fenResult (parseMoveResponse g r)"
    and "isCheck (spread c (parseMoveResponse g r)) = isCheck (parseMoveResponse g r)"
    and "isCheckmate (spread c (parseMoveResponse g r)) = isCheckmate (parseMoveResponse g r)"
    and "isDraw (spread c (parseMoveResponse g r)) = isDraw (parseMoveResponse g r)"
    and "isCapture (spread c (parseMoveResponse g r)) = isCapture (parseMoveResponse g r)"
    and "reason (spread c (parseMoveResponse g r)) = reason (parseMoveResponse g r)"
    and "pieceMovedText (spread c (parseMoveResponse g r)) = pieceMovedText (parseMoveResponse g r)"
    and "moveText (spread c (parseMoveResponse g r)) = moveText c"
  using parseMoveResponse_keys [OF assms]
  by (simp_all add: spread_def over_defined parseMoveResponse_moveText)

lemma applyMove_spread:
  assumes "truthy (valid (parseMoveResponse g r))"
  shows "applyMove (spread c (parseMoveResponse g r)) h = applyMove (parseMoveResponse g r) h"
  by (simp add: applyMove_def Let_def spread_validated [OF assms] cong: if_cong)

lemma generateAIMove_changed:
  assumes "fst (snd (generateAIMove orc now g)) \<noteq> g"
  shows "\<exists>m intentos sent. ai_loop orc g 0 [] [] = (Accepted m, intentos, sent)
          \<and> fst (snd (generateAIMove orc now g)) =
              (let g1 = g\<lparr>moveHistory := moveHistory g @
                          [\<lparr>mv_player = pid (player2 g), mv_move = moveText m,
                            mv_normalizedMove = normalizedMove m, mv_timestamp = now\<rparr>]\<rparr>;
                   g2 = applyMove m g1
               in if \<not> truthy (gameOver m) then switchTurn g2
                  else g2\<lparr>winner := res_winner m, endTime := Val now\<rparr>)"
proof -
  obtain out intentos sent where l: "ai_loop orc g 0 [] [] = (out, intentos, sent)"
    by (cases "ai_loop orc g 0 [] []")
  show ?thesis
  proof (cases out)
    case (Accepted m)
    with l assms show ?thesis
      by (auto simp: generateAIMove_def Let_def split: if_splits sum.splits)
  next
    case (Thrown e)
    with l assms show ?thesis by (auto simp: generateAIMove_def split: if_splits)
  next
    case Exhausted
    with l assms show ?thesis by (auto simp: generateAIMove_def split: if_splits)
  qed
qed

lemma generateAIMove_applied:
  assumes "fst (snd (generateAIMove orc now g)) \<noteq> g"
  shows "\<exists>hist j aprompt response vprompt vresponse.
           buildAIPrompt g hist = Inr aprompt \<and> orc j aprompt = Some response
         \<and> truthy (valid (parseAIResponse g response))
         \<and> buildMovePrompt g (pid (player2 g)) (moveText (parseAIResponse g response)) = Inr vprompt
         \<and> orc (Suc j) vprompt = Some vresponse
         \<and> truthy (valid (parseMoveResponse g vresponse))
         \<and> fst (snd (generateAIMove orc now g)) =
             (let v = parseMoveResponse g vresponse;
                  g1 = g\<lparr>moveHistory := moveHistory g @
                         [\<lparr>mv_player = pid (player2 g),
                           mv_move = moveText (parseAIResponse g response),
                           mv_normalizedMove = normalizedMove v, mv_timestamp = now\<rparr>]\<rparr>;
                  g2 = applyMove v g1
              in if \<not> truthy (gameOver v) then switchTurn g2
                 else g2\<lparr>winner := res_winner v, endTime := Val now\<rparr>)"
proof -
  from generateAIMove_changed [OF assms] obtain m intentos sent where
    l: "ai_loop orc g 0 [] [] = (Accepted m, intentos, sent)"
    and g': "fst (snd (generateAIMove orc now g)) =
              (let g1 = g\<lparr>moveHistory := moveHistory g @
                          [\<lparr>mv_player = pid (player2 g), mv_move = moveText m,
                            mv_normalizedMove = normalizedMove m, mv_timestamp = now\<rparr>]\<rparr>;
                   g2 = applyMove m g1
               in if \<not> truthy (gameOver m) then switchTurn g2
                  else g2\<lparr>winner := res_winner m, endTime := Val now\<rparr>)"
    by blast
  from ai_loop_accepted [OF l] obtain hist j aprompt response vprompt vresponse where
    a: "buildAIPrompt g hist = Inr aprompt" "orc j aprompt = Some response"
       "truthy (valid (parseAIResponse g response))"
       "buildMovePrompt g (pid (player2 g)) (moveText (parseAIResponse g response)) = Inr vprompt"
       "orc (Suc j) vprompt = Some vresponse"
    and vt: "truthy (valid (parseMoveResponse g vresponse))"
    and m: "m = spread (parseAIResponse g response) (parseMoveResponse g vresponse)"
    by blast
  have "fst (snd (generateAIMove orc now g)) =
             (let v = parseMoveResponse g vresponse;
                  g1 = g\<lparr>moveHistory := moveHistory g @
                         [\<lparr>mv_player = pid (player2 g),
                           mv_move = moveText (parseAIResponse g response),
                           mv_normalizedMove = normalizedMove v, mv_timestamp = now\<rparr>]\<rparr>;
                  g2 = applyMove v g1
              in if \<not> truthy (gameOver v) then switchTurn g2
                 else g2\<lparr>winner := res_winner v, endTime := Val now\<rparr>)"
    unfolding g' m
    by (simp add: Let_def spread_validated [OF vt] applyMove_spread [OF vt])
  with a vt show ?thesis by blast
qed

lemma ex_ai_turn_value:
  "ex_ai_turn =
     ex_ai_session
       \<lparr>state := initializeGameState\<lparr>lastMove := Val ''e2e4''\<rparr>,
        currentTurn := Player2,
        moveHistory := [\<lparr>mv_player = ''1'', mv_move = Val ''e2e4'',
                         mv_normalizedMove = Val ''e2e4'', mv_timestamp = 5\<rparr>]\<rparr>"
  by code_simp

lemma ex_ai_turn_fields:
  "vsAI ex_ai_turn" "currentTurn ex_ai_turn = Player2" "\<not> isFinished ex_ai_turn"
  by (simp_all add: ex_ai_turn_value ex_ai_session_def initialize_def isFinished_def)

lemma ex_exhausted:
  "fst (ai_loop (\<lambda>n p. Some (Val ''no'')) ex_ai_turn 0 [] []) = Exhausted"
  unfolding ex_ai_turn_value by code_simp

lemma ex_ai_move_value:
  "fst (snd (generateAIMove ex_oracle 7 ex_ai_turn)) =
     ex_ai_session
       \<lparr>state := initializeGameState\<lparr>lastMove := Val ''e7e6'', fullMoveNumber := Num 2\<rparr>,
        currentTurn := Player1,
        moveHistory := [\<lparr>mv_player = ''1'', mv_move = Val ''e2e4'',
                         mv_normalizedMove = Val ''e2e4'', mv_timestamp = 5\<rparr>,
                        \<lparr>mv_player = ''AI'', mv_move = Val ''e7e5'',
                         mv_normalizedMove = Val ''e7e6'', mv_timestamp = 7\<rparr>]\<rparr>"
  unfolding ex_ai_turn_value by code_simp

lemma ex_candidate_fields:
  "isCheck (parseAIResponse ex_ai_turn (Val ex_candidate)) = Val True
   \<and> fenResult (parseAIResponse ex_ai_turn (Val ex_candidate)) = Val ''x''
   \<and> normalizedMove (parseAIResponse ex_ai_turn (Val ex_candidate)) = Val ''e7e5''"
  unfolding ex_ai_turn_value by code_simp

text \<open>
  C2. \<open>generateAIMove\<close> sends at most three requests for a candidate move. When the
  loop ends without an accepted candidate, the session is exactly as it was and whatever
  is returned is not a success; when the three attempts are used up, the failure returned
  is the one that asks to restart the game.
\<close>

theorem generateAIMove_bounded:
  "length (filter is_AIPrompt (snd (snd (generateAIMove orc now g)))) \<le> 3
   \<and> ((\<forall>m. fst (ai_loop orc g 0 [] []) \<noteq> Accepted m) \<longrightarrow>
        fst (snd (generateAIMove orc now g)) = g
        \<and> (\<forall>r. fst (generateAIMove orc now g) = Some r \<longrightarrow> \<not> success r))
   \<and> (vsAI g \<and> currentTurn g = Player2 \<and> \<not> isFinished g
        \<and> fst (ai_loop orc g 0 [] []) = Exhausted \<longrightarrow>
        fst (generateAIMove orc now g)
          = Some \<lparr>success = False, message = AIExhausted, res_gameOver = Val False\<rparr>
        \<and> fst (snd (ai_loop orc g 0 [] [])) = 3)"
proof -
  obtain out intentos sent where l: "ai_loop orc g 0 [] [] = (out, intentos, sent)"
    by (cases "ai_loop orc g 0 [] []")
  from ai_loop_bound [OF l] have b: "length (filter is_AIPrompt sent) \<le> 3"
    by (simp add: MAX_INTENTOS_def)
  have s: "snd (snd (generateAIMove orc now g)) = sent \<or> snd (snd (generateAIMove orc now g)) = []"
    using l by (auto simp: generateAIMove_def Let_def split: loop_outcome.splits sum.splits)
  have 1: "length (filter is_AIPrompt (snd (snd (generateAIMove orc now g)))) \<le> 3"
    using s b by auto
  have 2: "(\<forall>m. fst (ai_loop orc g 0 [] []) \<noteq> Accepted m) \<longrightarrow>
        fst (snd (generateAIMove orc now g)) = g
        \<and> (\<forall>r. fst (generateAIMove orc now g) = Some r \<longrightarrow> \<not> success r)"
    using l by (cases out) (auto simp: generateAIMove_def)
  have ex: "out = Exhausted \<Longrightarrow> intentos = 3"
    using ai_loop_bound [OF l] by (simp add: MAX_INTENTOS_def)
  have 3: "vsAI g \<and> currentTurn g = Player2 \<and> \<not> isFinished g
        \<and> fst (ai_loop orc g 0 [] []) = Exhausted \<longrightarrow>
        fst (generateAIMove orc now g)
          = Some \<lparr>success = False, message = AIExhausted, res_gameOver = Val False\<rparr>
        \<and> fst (snd (ai_loop orc g 0 [] [])) = 3"
    using l ex by (auto simp: generateAIMove_def isAITurn_def)
  from 1 2 3 show ?thesis by blast
qed

theorem generateAIMove_bounded_witness:
  "(vsAI ex_ai_turn \<and> currentTurn ex_ai_turn = Player2 \<and> \<not> isFinished ex_ai_turn
     \<and> fst (ai_loop (\<lambda>n p. Some (Val ''no'')) ex_ai_turn 0 [] []) = Exhausted)
   \<and> (\<forall>m. fst (ai_loop (\<lambda>n p. Some (Val ''no'')) ex_ai_turn 0 [] []) \<noteq> Accepted m)
   \<and> length (filter is_AIPrompt (snd (snd (generateAIMove (\<lambda>n p. Some (Val ''no'')) 7 ex_ai_turn))))
       \<le> 3
   \<and> fst (snd (generateAIMove (\<lambda>n p. Some (Val ''no'')) 7 ex_ai_turn)) = ex_ai_turn
   \<and> fst (generateAIMove (\<lambda>n p. Some (Val ''no'')) 7 ex_ai_turn)
       = Some \<lparr>success = False, message = AIExhausted, res_gameOver = Val False\<rparr>"
  using generateAIMove_bounded [of "\<lambda>n p. Some (Val ''no'')" 7 ex_ai_turn]
        ex_ai_turn_fields ex_exhausted
  by simp

text \<open>
  C1. Whenever \<open>generateAIMove\<close> changes the session, a candidate was generated and
  parsed as well-formed, a second request, built by \<open>buildMovePrompt\<close> for that
  candidate's move text, was answered, and \<open>parseMoveResponse\<close> found that answer valid.
  The session then is the old one with one move appended, whose text is the candidate's
  and whose normalized move is the validation's, after \<open>applyMove\<close> of the validation
  result and the turn switch or the end of the game that the validation result asks for:
  validity, normalized move, check square, termination, winner and resulting position all
  come from the validation reply. In the witness the two replies disagree on the
  normalized move, the check and the position.
\<close>

theorem generateAIMove_validated:
  assumes "fst (snd (generateAIMove orc now g)) \<noteq> g"
  shows "\<exists>hist j aprompt response vprompt vresponse.
           buildAIPrompt g hist = Inr aprompt \<and> orc j aprompt = Some response
         \<and> truthy (valid (parseAIResponse g response))
         \<and> buildMovePrompt g (pid (player2 g)) (moveText (parseAIResponse g response)) = Inr vprompt
         \<and> orc (Suc j) vprompt = Some vresponse
         \<and> truthy (valid (parseMoveResponse g vresponse))
         \<and> fst (snd (generateAIMove orc now g)) =
             (let v = parseMoveResponse g vresponse;
                  g1 = g\<lparr>moveHistory := moveHistory g @
                         [\<lparr>mv_player = pid (player2 g),
                           mv_move = moveText (parseAIResponse g response),
                           mv_normalizedMove = normalizedMove v, mv_timestamp = now\<rparr>]\<rparr>;
                  g2 = applyMove v g1
              in if \<not> truthy (gameOver v) then switchTurn g2
                 else g2\<lparr>winner := res_winner v, endTime := Val now\<rparr>)"
  using generateAIMove_applied [OF assms] .

theorem generateAIMove_validated_witness:
  "fst (snd (generateAIMove ex_oracle 7 ex_ai_turn)) \<noteq> ex_ai_turn
   \<and> isCheck (parseAIResponse ex_ai_turn (Val ex_candidate)) = Val True
   \<and> fenResult (parseAIResponse ex_ai_turn (Val ex_candidate)) = Val ''x''
   \<and> normalizedMove (parseAIResponse ex_ai_turn (Val ex_candidate)) = Val ''e7e5''
   \<and> check (state (fst (snd (generateAIMove ex_oracle 7 ex_ai_turn)))) = Null
   \<and> board (state (fst (snd (generateAIMove ex_oracle 7 ex_ai_turn)))) = initial_board
   \<and> lastMove (state (fst (snd (generateAIMove ex_oracle 7 ex_ai_turn)))) = Val ''e7e6''
   \<and> map mv_normalizedMove (moveHistory (fst (snd (generateAIMove ex_oracle 7 ex_ai_turn))))
       = [Val ''e2e4'', Val ''e7e6'']"
proof -
  have ne: "fst (snd (generateAIMove ex_oracle 7 ex_ai_turn)) \<noteq> ex_ai_turn"
    unfolding ex_ai_move_value by (simp add: ex_ai_turn_value ex_ai_session_def initialize_def)
  from generateAIMove_validated [OF ne] ne ex_candidate_fields show ?thesis
    by (simp add: ex_ai_move_value ex_ai_session_def initialize_def initializeGameState_def)
qed

subsection \<open>Winner and end time\<close>

lemma parseMoveResponse_winner:
  "truthy (gameOver (parseMoveResponse g r)) \<Longrightarrow> res_winner (parseMoveResponse g r) \<noteq> Null"
  by (auto simp: parseMoveResponse_def parseMoveResponse_try_def invalid_result_def Let_def
                 js_or_def winner_of_def
           split: nullable.splits if_splits)

lemma processMove_inv:
  assumes "winner g = Null \<longleftrightarrow> endTime g = Null"
  shows "winner (snd (processMove orc now playerId moveText' g)) = Null
           \<longleftrightarrow> endTime (snd (processMove orc now playerId moveText' g)) = Null"
  using assms parseMoveResponse_winner [of g]
  by (auto simp: processMove_def Let_def isFinished_def switchTurn_def applyMove_frame
                 applyMove_winner
           split: sum.splits option.splits)

lemma generateAIMove_inv:
  assumes "winner g = Null \<longleftrightarrow> endTime g = Null"
  shows "winner (fst (snd (generateAIMove orc now g))) = Null
           \<longleftrightarrow> endTime (fst (snd (generateAIMove orc now g))) = Null"
proof (cases "fst (snd (generateAIMove orc now g)) = g")
  case True
  with assms show ?thesis by simp
next
  case False
  have nf: "winner g = Null"
    using False by (auto simp: generateAIMove_def isFinished_def split: if_splits)
  from generateAIMove_applied [OF False] obtain vresponse mt where
    vt: "truthy (valid (parseMoveResponse g vresponse))"
    and g': "fst (snd (generateAIMove orc now g)) =
             (let v = parseMoveResponse g vresponse;
                  g1 = g\<lparr>moveHistory := moveHistory g @
                         [\<lparr>mv_player = pid (player2 g), mv_move = mt,
                           mv_normalizedMove = normalizedMove v, mv_timestamp = now\<rparr>]\<rparr>;
                  g2 = applyMove v g1
              in if \<not> truthy (gameOver v) then switchTurn g2
                 else g2\<lparr>winner := res_winner v, endTime := Val now\<rparr>)"
    by blast
  show ?thesis
    unfolding g'
    using assms nf parseMoveResponse_winner [of g vresponse]
    by (simp add: Let_def switchTurn_def applyMove_frame applyMove_winner)
qed

lemma surrender_inv:
  assumes "winner g = Null \<longleftrightarrow> endTime g = Null"
  shows "winner (snd (surrender now playerId g)) = Null
           \<longleftrightarrow> endTime (snd (surrender now playerId g)) = Null"
  using assms by (auto simp: surrender_def Let_def split: sum.splits)

lemma apply_op_inv:
  "(winner g = Null \<longleftrightarrow> endTime g = Null)
     \<Longrightarrow> (winner (apply_op g op) = Null \<longleftrightarrow> endTime (apply_op g op) = Null)"
  by (cases op) (simp_all only: apply_op.simps processMove_inv generateAIMove_inv surrender_inv)

text \<open>
  C4. A session created by \<open>initialize\<close> has, after any sequence of \<open>processMove\<close>,
  \<open>generateAIMove\<close> and \<open>surrender\<close> with any oracle, a winner exactly when it has an
  end time.
\<close>

theorem winner_iff_endTime:
  "winner (run (initialize player1Id player1Name player2Id player2Name vsAI' now) ops) = Null
     \<longleftrightarrow> endTime (run (initialize player1Id player1Name player2Id player2Name vsAI' now) ops) = Null"
proof (induction ops rule: rev_induct)
  case Nil
  show ?case by (simp add: run_def initialize_def)
next
  case (snoc op ops)
  from apply_op_inv [OF snoc.IH, of op] show ?case by (simp add: run_def)
qed

theorem winner_iff_endTime_witness:
  "winner (run (initialize ''1'' ''ana'' ''2'' ''ben'' False 0) []) = Null
   \<and> endTime (run (initialize ''1'' ''ana'' ''2'' ''ben'' False 0) []) = Null
   \<and> winner (run (initialize ''1'' ''ana'' ''2'' ''ben'' False 0) [OpSurrender 9 ''2''])
       = Val WinPlayer1
   \<and> endTime (run (initialize ''1'' ''ana'' ''2'' ''ben'' False 0) [OpSurrender 9 ''2''])
       = Val 9"
  using winner_iff_endTime [of "''1''" "''ana''" "''2''" "''ben''" False 0 "[]"]
        winner_iff_endTime [of "''1''" "''ana''" "''2''" "''ben''" False 0 "[OpSurrender 9 ''2'']"]
  by (auto simp: run_def initialize_def surrender_def isFinished_def Let_def split: sum.splits)

subsection \<open>The parsers on arbitrary text\<close>

lemma search_mono:
  "search f s = Some x \<Longrightarrow> (\<And>t. f t \<noteq> None \<Longrightarrow> h t \<noteq> None) \<Longrightarrow> search h s \<noteq> None"
proof (induction s)
  case Nil
  then show ?case by auto
next
  case (Cons c cs)
  show ?case
  proof (cases "f (c # cs)")
    case None
    with Cons show ?thesis by (auto split: option.splits)
  next
    case (Some y)
    with Cons.prems(2) [of "c # cs"] show ?thesis by (auto split: option.splits)
  qed
qed

lemma match_field_has_label:
  "\<not> has_label label s \<Longrightarrow> match_field label grp s = None"
proof (rule ccontr)
  assume n: "\<not> has_label label s" and "match_field label grp s \<noteq> None"
  then obtain v where srch:
    "search (\<lambda>t. case ci_prefix (map case_variants label) t of
                    None \<Rightarrow> None | Some r \<Rightarrow> greedy_ws grp r) s = Some v"
    by (auto simp: match_field_def)
  have "search (\<lambda>t. ci_prefix (map case_variants label) t) s \<noteq> None"
  proof (rule search_mono [OF srch])
    fix t
    assume "(case ci_prefix (map case_variants label) t of
               None \<Rightarrow> None | Some r \<Rightarrow> greedy_ws grp r) \<noteq> None"
    then show "ci_prefix (map case_variants label) t \<noteq> None"
      by (auto split: option.splits)
  qed
  with n show False by (simp add: has_label_def)
qed

lemma ex_no_labels:
  "\<not> has_label ''MOVIMIENTO_VALIDO:'' ''e2e4 es legal''"
  "\<not> has_label ''MOVIMIENTO:'' ''e2e4 es legal''"
  "match_field ''MOVIMIENTO_VALIDO:'' grp_bool ''MOVIMIENTO_VALIDO: si'' = None"
  "match_field ''MOVIMIENTO:'' grp_move ''MOVIMIENTO: Cf3'' = None"
  by code_simp+

text \<open>
  C9. On every string the \<open>try\<close> blocks of \<open>parseMoveResponse\<close> and
  \<open>parseAIResponse\<close> return a result and throw nothing. A reply in which the pattern of
  the validity field finds nothing, in particular one that does not contain the label
  \<open>MOVIMIENTO_VALIDO:\<close>, is parsed as not valid; so is, by the generation parser, a
  reply in which the pattern of the move finds nothing, in particular one without the label
  \<open>MOVIMIENTO:\<close>.
\<close>

theorem parsers_total:
  "(\<exists>r. parseMoveResponse_try g (Val s) = Inr r)
   \<and> (\<exists>r. parseAIResponse_try g (Val s) = Inr r)
   \<and> (match_field ''MOVIMIENTO_VALIDO:'' grp_bool s = None
        \<longrightarrow> \<not> truthy (valid (parseMoveResponse g (Val s))))
   \<and> (\<not> has_label ''MOVIMIENTO_VALIDO:'' s
        \<longrightarrow> \<not> truthy (valid (parseMoveResponse g (Val s))))
   \<and> (match_field ''MOVIMIENTO:'' grp_move s = None
        \<longrightarrow> \<not> truthy (valid (parseAIResponse g (Val s))))
   \<and> (\<not> has_label ''MOVIMIENTO:'' s
        \<longrightarrow> \<not> truthy (valid (parseAIResponse g (Val s))))"
proof -
  have 1: "\<exists>r. parseMoveResponse_try g (Val s) = Inr r"
    by (simp add: parseMoveResponse_try_def Let_def)
  have 2: "\<exists>r. parseAIResponse_try g (Val s) = Inr r"
    by (simp add: parseAIResponse_try_def Let_def split: option.splits)
  have 3: "match_field ''MOVIMIENTO_VALIDO:'' grp_bool s = None
        \<longrightarrow> \<not> truthy (valid (parseMoveResponse g (Val s)))"
    by (simp add: parseMoveResponse_fields bool_field_def)
  have 5: "match_field ''MOVIMIENTO:'' grp_move s = None
        \<longrightarrow> \<not> truthy (valid (parseAIResponse g (Val s)))"
    by (simp add: parseAIResponse_def parseAIResponse_try_def invalid_result_def)
  have 4: "\<not> has_label ''MOVIMIENTO_VALIDO:'' s
        \<longrightarrow> \<not> truthy (valid (parseMoveResponse g (Val s)))"
    using 3 match_field_has_label [of "''MOVIMIENTO_VALIDO:''" s grp_bool] by auto
  have 6: "\<not> has_label ''MOVIMIENTO:'' s
        \<longrightarrow> \<not> truthy (valid (parseAIResponse g (Val s)))"
    using 5 match_field_has_label [of "''MOVIMIENTO:''" s grp_move] by auto
  show ?thesis
    using 1 2 3 4 5 6 by (intro conjI)
qed

theorem parsers_total_witness:
  "(\<not> has_label ''MOVIMIENTO_VALIDO:'' ''e2e4 es legal''
    \<and> \<not> has_label ''MOVIMIENTO:'' ''e2e4 es legal''
    \<and> match_field ''MOVIMIENTO_VALIDO:'' grp_bool ''MOVIMIENTO_VALIDO: si'' = None
    \<and> match_field ''MOVIMIENTO:'' grp_move ''MOVIMIENTO: Cf3'' = None)
   \<and> \<not> truthy (valid (parseMoveResponse ex_session (Val ''e2e4 es legal'')))
   \<and> \<not> truthy (valid (parseAIResponse ex_session (Val ''e2e4 es legal'')))
   \<and> \<not> truthy (valid (parseMoveResponse ex_session (Val ''MOVIMIENTO_VALIDO: si'')))
   \<and> \<not> truthy (valid (parseAIResponse ex_session (Val ''MOVIMIENTO: Cf3'')))"
  using parsers_total [of ex_session "''e2e4 es legal''"]
        parsers_total [of ex_session "''MOVIMIENTO_VALIDO: si''"]
        parsers_total [of ex_session "''MOVIMIENTO: Cf3''"]
        ex_no_labels
  by simp

end
